theory Spec2Isabelle
  imports Complex_Main "HOL-Library.Sublist" "HOL-Library.Word"
begin

section \<open>The follow-me example program: data\<close>

text \<open>
  The program \<^verbatim>\<open>follow_me.cpp\<close> is a linear script over an external flight-control
  library and an external location provider. Neither is part of the repository, so the
  answers they give are the input of the model (the record \<open>env\<close> below), and everything
  the program does to them or prints is an \<open>event\<close> of the run's trace.

  Result enumerations of the library are modelled by their \<open>Success\<close> value and one
  constructor for every other value; the code only ever compares against \<open>Success\<close>
  (or, for the flight mode, against \<open>FollowMe\<close>).

  Latitudes and longitudes are values of type \<^verbatim>\<open>double\<close>, on which the program computes.
  The type \<open>'d\<close> stands for the values of \<^verbatim>\<open>double\<close>, and the operations that the program
  applies to them are parameters (\<open>double_arith\<close> below): what is proved holds for every
  such arithmetic, so for the one of the machine, with its rounding, its infinities and
  its not-a-number. The relative altitude, a \<^verbatim>\<open>float\<close>, is only compared with the constant
  2.4 and is modelled as a real number.
\<close>

datatype ConnectionResult = ConnectionSuccess | ConnectionFailure nat
datatype ActionResult = ActionSuccess | ActionFailure nat
datatype FollowMeResult = FollowMeSuccess | FollowMeFailure nat
datatype FlightMode = FollowMe | OtherFlightMode nat
datatype FollowDirection = Front | OtherDirection nat

type_synonym uuid = "64 word"

record Config =
  min_height_m :: real
  follow_direction :: FollowDirection
  follow_distance_m :: real

record 'd Position =
  latitude_deg :: 'd
  longitude_deg :: 'd
  relative_altitude_m :: real

datatype 'd TargetLocation =
  TargetLocation (target_latitude_deg: 'd) (target_longitude_deg: 'd)

text \<open>
  The arithmetic of \<^verbatim>\<open>double\<close> that lines 147 to 152 use: the subtraction, \<^verbatim>\<open>fabs\<close>, the
  division, the comparison \<^verbatim>\<open><\<close>, and the value that a decimal literal denotes.
\<close>

record 'd double_arith =
  minus_double :: "'d \<Rightarrow> 'd \<Rightarrow> 'd"
  fabs :: "'d \<Rightarrow> 'd"
  divide_double :: "'d \<Rightarrow> 'd \<Rightarrow> 'd"
  less_double :: "'d \<Rightarrow> 'd \<Rightarrow> bool"
  literal :: "real \<Rightarrow> 'd"

text \<open>
  What the program is compiled against: the arithmetic, and the two constants of
  \<^verbatim>\<open>rcs_location_provider.h\<close>, a header that is not among the sources. All of it is a
  parameter of the model.
\<close>

record 'd rcs_constants = "'d double_arith" +
  LATITUDE_DEG_PER_METER :: 'd
  LONGITUDE_DEG_PER_METER :: 'd

definition MAX_FOLLOW_DISTANCE_METERS :: "'d rcs_constants \<Rightarrow> 'd" where
  "MAX_FOLLOW_DISTANCE_METERS K = literal K 5.0"

definition MAX_SECONDS_TO_FOLLOW :: int where
  "MAX_SECONDS_TO_FOLLOW = 60"

definition EXIT_FAILURE :: int where
  "EXIT_FAILURE = 1"

subsection \<open>Events and outcomes\<close>

datatype 'd event =
    AddAnyConnection string
  | PrintConnectionFailed ConnectionResult
  | Stdout string
  | RegisterOnDiscover
  | PrintDiscovered uuid
  | SleepFor nat
  | SystemUuids "uuid list"
  | SelectSystem uuid
  | HealthAllOk bool
  | Armed bool
  | InAir bool
  | RelativeAltitude real
  | ArmCmd
  | TakeoffCmd
  | LandCmd
  | StderrAction string ActionResult
  | SetConfig Config
  | FollowMeStart
  | FollowMeStop
  | StderrFollowMe string FollowMeResult
  | SubscribeFlightMode
  | UnsubscribeFlightMode
  | PrintVehicleAt FlightMode 'd 'd
  | RequestLocationUpdates string int int
  | IsRunning bool
  | SetTargetLocation "'d TargetLocation"
  | PrintSkipped 'd 'd

text \<open>
  How a run ends: \<open>Returned n\<close> is \<^verbatim>\<open>return n\<close> from \<^verbatim>\<open>main\<close>, \<open>Exited n\<close> is a call of
  \<^verbatim>\<open>exit(n)\<close>, \<open>Undefined\<close> is \<^verbatim>\<open>front()\<close> on an empty vector, and \<open>Waiting\<close> is a polling
  loop that is still waiting when the environment's answers end (the loop has not
  returned).
\<close>

datatype outcome = Returned int | Exited int | Undefined | Waiting

text \<open>
  A piece of the program yields the events it produced and, when it ended the run,
  the outcome; \<open>None\<close> means that control goes on to the next statement.
\<close>

type_synonym 'd phase = "'d event list \<times> outcome option"

definition step :: "'d event list \<Rightarrow> 'd phase" where
  "step es = (es, None)"

definition halt :: "'d event list \<Rightarrow> outcome \<Rightarrow> 'd phase" where
  "halt es oc = (es, Some oc)"

definition emit :: "'d event list \<Rightarrow> 'd phase \<Rightarrow> 'd phase" where
  "emit es p = (es @ fst p, snd p)"

definition seq :: "'d phase \<Rightarrow> 'd phase \<Rightarrow> 'd phase" where
  "seq p q = (case snd p of Some oc \<Rightarrow> p | None \<Rightarrow> emit (fst p) q)"

subsection \<open>The environment\<close>

text \<open>
  A callback that the library or the location provider runs while the main thread
  sleeps. A flight-mode update carries the mode and what \<^verbatim>\<open>get_last_location\<close> returns
  inside the callback; a location fix carries the fix and what the two calls of
  \<^verbatim>\<open>telemetry->position()\<close> inside the callback return.
\<close>

datatype 'd callback =
    FlightModeUpdate FlightMode "'d TargetLocation"
  | LocationFix 'd 'd "'d Position" "'d Position"

text \<open>
  One round of the follow loop: the answer of \<^verbatim>\<open>is_running()\<close> and the callbacks that
  run during the second of sleep that follows.
\<close>

record 'd tick =
  running :: bool
  callbacks :: "'d callback list"

text \<open>
  A location fix that arrives once the flight-mode subscription has ended, when the
  location callback is the only callback left: latitude, longitude, and the answers of
  the callback's two calls of \<^verbatim>\<open>telemetry->position()\<close>.
\<close>

type_synonym 'd location_fix = "'d \<times> 'd \<times> 'd Position \<times> 'd Position"

text \<open>
  One poll of the landing wait: the answer of \<^verbatim>\<open>in_air()\<close> and the location fixes that
  arrive during the second of sleep that follows.
\<close>

record 'd landing_poll =
  still_in_air :: bool
  fixes_while_asleep :: "'d location_fix list"

text \<open>
  The answers of the outside world, in the order in which the program asks.
  \<^item> \<open>discoveries\<close> holds, for each evaluation of the discovery loop's condition, the
    systems that the discovery callback announced since the previous one.
  \<^item> \<open>system_uuids_at_size\<close> and \<open>system_uuids_at_front\<close> are the answers of the two calls
    of \<^verbatim>\<open>dc.system_uuids()\<close>, in line 83 and in line 89; the library may have discovered
    another system between them.
  \<^item> \<open>health_all_ok\<close> and \<open>positions\<close> are the successive answers inside the two waits of
    the preflight phase.
  \<^item> \<open>ticks\<close> are the rounds of the follow loop.
  \<^item> \<open>callbacks_during_stop\<close> are the callbacks that run from the call of
    \<^verbatim>\<open>follow_me->stop()\<close> in line 167 to the end of the flight-mode subscription in
    line 171. Both callbacks are live there, and the stop itself changes the flight mode.
  \<^item> \<open>fixes_during_land\<close> are the location fixes that arrive while \<^verbatim>\<open>action->land()\<close> runs,
    and \<open>landing\<close> are the polls of the landing wait. The location callback is never
    cancelled.

  A command that is refused ends the run when it returns, so the callbacks that run
  while a command is in progress are looked at once it has returned \<open>Success\<close>: a
  flight-mode callback that ends the process while \<^verbatim>\<open>stop()\<close> is in progress leaves no result
  of the stop behind, and is a run in which the stop was not refused.

  The program name \<^verbatim>\<open>argv[0]\<close> is always present, so \<^verbatim>\<open>argc\<close> is one more than the number
  of arguments.
\<close>

record 'd env =
  bin_name :: string
  args :: "string list"
  connection_result :: ConnectionResult
  discoveries :: "uuid list list"
  system_uuids_at_size :: "uuid list"
  system_uuids_at_front :: "uuid list"
  health_all_ok :: "bool list"
  armed :: bool
  arm_result :: ActionResult
  in_air :: bool
  takeoff_result :: ActionResult
  positions :: "'d Position list"
  start_result :: FollowMeResult
  ticks :: "'d tick list"
  stop_result :: FollowMeResult
  callbacks_during_stop :: "'d callback list"
  land_result :: ActionResult
  fixes_during_land :: "'d location_fix list"
  landing :: "'d landing_poll list"

definition argc :: "'d env \<Rightarrow> int" where
  "argc e = 1 + int (length (args e))"

section \<open>The program\<close>

subsection \<open>Error exits\<close>

definition action_error_exit :: "ActionResult \<Rightarrow> string \<Rightarrow> 'd phase" where
  "action_error_exit result message =
     (if result \<noteq> ActionSuccess
      then halt [StderrAction message result] (Exited EXIT_FAILURE)
      else step [])"

definition follow_me_error_exit :: "FollowMeResult \<Rightarrow> string \<Rightarrow> 'd phase" where
  "follow_me_error_exit result message =
     (if result \<noteq> FollowMeSuccess
      then halt [StderrFollowMe message result] (Exited EXIT_FAILURE)
      else step [])"

subsection \<open>Connection (lines 59 to 71)\<close>

text \<open>
  Every \<open>Stdout\<close> event is one line of standard output; the console colour escapes are
  left out of the text, and so is the library's rendering of a result value.
\<close>

definition usage :: "string \<Rightarrow> 'd event list" where
  "usage bin_name' =
     [Stdout (''Usage : '' @ bin_name' @ '' <connection_url>''),
      Stdout ''Connection URL format should be :'',
      Stdout '' For TCP : tcp://[server_host][:server_port]'',
      Stdout '' For UDP : udp://[bind_host][:bind_port]'',
      Stdout '' For Serial : serial:///path/to/serial/dev[:baudrate]'',
      Stdout ''For example, to connect to the simulator use URL: udp://:14540'']"

definition connect :: "'d env \<Rightarrow> 'd phase" where
  "connect e =
     (if argc e = 2 then
        (let connection_url = hd (args e) in
         emit [AddAnyConnection connection_url]
           (if connection_result e \<noteq> ConnectionSuccess
            then halt [PrintConnectionFailed (connection_result e)] (Returned 1)
            else step []))
      else halt (usage (bin_name e)) (Returned 1))"

subsection \<open>Discovery (lines 73 to 89)\<close>

text \<open>
  The discovery callback prints the system and sets the flag \<^verbatim>\<open>discovered_system\<close>; the
  main thread sleeps a second at a time until it sees the flag set. When no further
  callback ever comes, the flag stays unset and the loop does not end.
\<close>

fun discovery_loop :: "uuid list list \<Rightarrow> 'd phase" where
  "discovery_loop [] = halt [] Waiting"
| "discovery_loop (us # rest) =
     (let discovered_system = (us \<noteq> []) in
      emit (map PrintDiscovered us)
        (if \<not> discovered_system then emit [SleepFor 1] (discovery_loop rest)
         else step []))"

text \<open>
  Line 83 asks the library for its systems and ends the run with \<^verbatim>\<open>exit(1)\<close> when there
  is more than one; line 89 asks again and takes the first one with \<^verbatim>\<open>front()\<close>, which
  has no defined result on an empty vector.
\<close>

definition select_system :: "uuid list \<Rightarrow> uuid list \<Rightarrow> 'd phase" where
  "select_system uuids_at_size uuids_at_front =
     emit [SystemUuids uuids_at_size]
       (if length uuids_at_size > 1
        then halt [Stdout ''Discovered more than one system! Exiting.''] (Exited 1)
        else emit [SystemUuids uuids_at_front]
               (case uuids_at_front of
                  [] \<Rightarrow> halt [] Undefined
                | u # _ \<Rightarrow> step [SelectSystem u]))"

definition discover :: "'d env \<Rightarrow> 'd phase" where
  "discover e =
     emit [Stdout ''Waiting to discover system...'', RegisterOnDiscover]
       (seq (discovery_loop (discoveries e))
            (select_system (system_uuids_at_size e) (system_uuids_at_front e)))"

subsection \<open>Preflight (lines 94 to 114)\<close>

fun wait_health :: "bool list \<Rightarrow> 'd phase" where
  "wait_health [] = halt [] Waiting"
| "wait_health (ok # rest) =
     emit [HealthAllOk ok]
       (if \<not> ok
        then emit [Stdout ''Waiting for system to be ready'', SleepFor 1] (wait_health rest)
        else step [])"

fun wait_altitude :: "'d Position list \<Rightarrow> 'd phase" where
  "wait_altitude [] = halt [] Waiting"
| "wait_altitude (p # rest) =
     emit [RelativeAltitude (relative_altitude_m p)]
       (if relative_altitude_m p < 2.4
        then emit [SleepFor 1] (wait_altitude rest)
        else step [])"

definition arm :: "'d env \<Rightarrow> 'd phase" where
  "arm e =
     emit [Armed (armed e)]
       (seq (if \<not> armed e
             then emit [ArmCmd] (action_error_exit (arm_result e) ''Arming failed'')
             else step [])
            (step [Stdout ''Armed'']))"

definition takeoff :: "'d env \<Rightarrow> 'd phase" where
  "takeoff e =
     emit [InAir (in_air e)]
       (seq (if \<not> in_air e
             then emit [TakeoffCmd]
                    (seq (action_error_exit (takeoff_result e) ''Takeoff failed'')
                         (wait_altitude (positions e)))
             else step [])
            (step [Stdout ''In Air...'']))"

definition preflight :: "'d env \<Rightarrow> 'd phase" where
  "preflight e =
     seq (wait_health (health_all_ok e))
       (seq (step [Stdout ''System is ready''])
          (seq (arm e) (takeoff e)))"

subsection \<open>Starting follow-me and subscribing (lines 116 to 156)\<close>

definition follow_config :: Config where
  "follow_config =
     \<lparr>min_height_m = 8.0, follow_direction = Front, follow_distance_m = 1.0\<rparr>"

text \<open>The result of \<^verbatim>\<open>set_config\<close> is overwritten before it is looked at.\<close>

definition start_follow_me :: "'d env \<Rightarrow> 'd phase" where
  "start_follow_me e =
     emit [SetConfig follow_config, FollowMeStart]
       (seq (follow_me_error_exit (start_result e) ''Failed to start FollowMe mode'')
            (step [SubscribeFlightMode, RequestLocationUpdates ''localhost'' 65191 0]))"

text \<open>The flight-mode callback (lines 128 to 138).\<close>

definition flight_mode_callback :: "FlightMode \<Rightarrow> 'd TargetLocation \<Rightarrow> 'd phase" where
  "flight_mode_callback flight_mode last_location =
     (if flight_mode \<noteq> FollowMe
      then halt [Stdout ''Flight mode was changed externally! Exiting.''] (Exited 0)
      else step [PrintVehicleAt flight_mode
                   (target_latitude_deg last_location)
                   (target_longitude_deg last_location)])"

text \<open>
  The location callback (lines 142 to 156). \<open>pos1\<close> and \<open>pos2\<close> are the answers of its
  two calls of \<^verbatim>\<open>telemetry->position()\<close>. Every operation on a \<^verbatim>\<open>double\<close> is the one of the
  arithmetic \<open>K\<close>.
\<close>

definition location_callback ::
  "'d rcs_constants \<Rightarrow> 'd Position \<Rightarrow> 'd Position \<Rightarrow> 'd \<Rightarrow> 'd \<Rightarrow> 'd phase" where
  "location_callback K pos1 pos2 lat lon =
     (let target_location = TargetLocation lat lon;
          lat_diff = fabs K (minus_double K (latitude_deg pos1)
                                (target_latitude_deg target_location));
          lon_diff = fabs K (minus_double K (longitude_deg pos2)
                                (target_longitude_deg target_location))
      in if less_double K (divide_double K lat_diff (LATITUDE_DEG_PER_METER K))
              (MAX_FOLLOW_DISTANCE_METERS K)
            \<and> less_double K (divide_double K lon_diff (LONGITUDE_DEG_PER_METER K))
                (MAX_FOLLOW_DISTANCE_METERS K)
         then step [SetTargetLocation target_location]
         else step [PrintSkipped (target_latitude_deg target_location)
                      (target_longitude_deg target_location)])"

fun run_callback :: "'d rcs_constants \<Rightarrow> 'd callback \<Rightarrow> 'd phase" where
  "run_callback K (FlightModeUpdate flight_mode last_location) =
     flight_mode_callback flight_mode last_location"
| "run_callback K (LocationFix lat lon pos1 pos2) =
     location_callback K pos1 pos2 lat lon"

fun deliver :: "'d rcs_constants \<Rightarrow> 'd callback list \<Rightarrow> 'd phase" where
  "deliver K [] = step []"
| "deliver K (cb # cbs) = seq (run_callback K cb) (deliver K cbs)"

text \<open>The location callback alone, on the fixes that arrive.\<close>

fun deliver_fixes :: "'d rcs_constants \<Rightarrow> 'd location_fix list \<Rightarrow> 'd phase" where
  "deliver_fixes K [] = step []"
| "deliver_fixes K ((lat, lon, pos1, pos2) # later) =
     seq (location_callback K pos1 pos2 lat lon) (deliver_fixes K later)"

subsection \<open>The follow loop (lines 158 to 164)\<close>

text \<open>
  \<open>count\<close> is the static counter, which starts at 0 and stays below 61, far from the
  range where a 32-bit integer wraps.
\<close>

fun follow_loop :: "'d rcs_constants \<Rightarrow> int \<Rightarrow> 'd tick list \<Rightarrow> 'd phase" where
  "follow_loop K count [] = halt [] Waiting"
| "follow_loop K count (t # rest) =
     emit [IsRunning (running t)]
       (if running t then
          emit [SleepFor 1]
            (seq (deliver K (callbacks t))
               (let count' = count + 1 in
                if count' \<ge> MAX_SECONDS_TO_FOLLOW then step []
                else follow_loop K count' rest))
        else step [])"

subsection \<open>Shutdown (lines 166 to 181)\<close>

fun wait_landed :: "'d rcs_constants \<Rightarrow> 'd landing_poll list \<Rightarrow> 'd phase" where
  "wait_landed K [] = halt [] Waiting"
| "wait_landed K (p # rest) =
     emit [InAir (still_in_air p)]
       (if still_in_air p
        then emit [Stdout ''waiting until landed'', SleepFor 1]
               (seq (deliver_fixes K (fixes_while_asleep p)) (wait_landed K rest))
        else step [])"

definition shutdown :: "'d rcs_constants \<Rightarrow> 'd env \<Rightarrow> 'd phase" where
  "shutdown K e =
     emit [FollowMeStop]
       (seq (follow_me_error_exit (stop_result e) ''Failed to stop FollowMe mode'')
          (seq (deliver K (callbacks_during_stop e))
             (emit [UnsubscribeFlightMode, LandCmd]
                (seq (action_error_exit (land_result e) ''Landing failed'')
                   (seq (deliver_fixes K (fixes_during_land e))
                      (seq (wait_landed K (landing e))
                         (step [Stdout ''Landed...''])))))))"

subsection \<open>The whole program\<close>

definition finish :: "'d phase \<Rightarrow> 'd event list \<times> outcome" where
  "finish p = (case snd p of Some oc \<Rightarrow> (fst p, oc) | None \<Rightarrow> (fst p, Returned 0))"

text \<open>Everything up to the follow loop (lines 59 to 156).\<close>

definition startup :: "'d env \<Rightarrow> 'd phase" where
  "startup e =
     seq (connect e)
       (seq (discover e)
          (seq (preflight e)
             (start_follow_me e)))"

definition main :: "'d rcs_constants \<Rightarrow> 'd env \<Rightarrow> 'd event list \<times> outcome" where
  "main K e =
     finish
       (seq (startup e)
          (seq (follow_loop K 0 (ticks e))
             (shutdown K e)))"

subsection \<open>Pieces of a trace\<close>

text \<open>
  What one round of the follow loop adds to the trace when the provider is running.
\<close>

definition round_events :: "'d rcs_constants \<Rightarrow> 'd tick \<Rightarrow> 'd event list" where
  "round_events K t = [IsRunning True, SleepFor 1] @ fst (deliver K (callbacks t))"

text \<open>
  What one round of waiting adds to the trace: during the climb after takeoff (the
  altitude that was read is below 2.4), and after the land command (still in the air).
\<close>

definition climb_round :: "'d Position \<Rightarrow> 'd event list" where
  "climb_round q = [RelativeAltitude (relative_altitude_m q), SleepFor 1]"

definition landing_round :: "'d event list" where
  "landing_round = [InAir True, Stdout ''waiting until landed'', SleepFor 1]"

definition mode_changed_message :: "'d event" where
  "mode_changed_message = Stdout ''Flight mode was changed externally! Exiting.''"

text \<open>
  The events that the two callbacks produce; every other event is one of the main
  thread.
\<close>

fun callback_event :: "'d event \<Rightarrow> bool" where
  "callback_event (SetTargetLocation l) = True"
| "callback_event (PrintSkipped x y) = True"
| "callback_event (PrintVehicleAt m x y) = True"
| "callback_event (Stdout text) = (text = ''Flight mode was changed externally! Exiting.'')"
| "callback_event ev = False"

definition main_thread_events :: "'d event list \<Rightarrow> 'd event list" where
  "main_thread_events tr = filter (\<lambda>ev. \<not> callback_event ev) tr"

text \<open>
  The test of lines 151 and 152, as the claim words it: the distance in latitude divided
  by \<open>LATITUDE_DEG_PER_METER\<close> is less than 5, and so is the distance in longitude divided
  by \<open>LONGITUDE_DEG_PER_METER\<close>.
\<close>

definition within_follow_distance ::
  "'d rcs_constants \<Rightarrow> 'd Position \<Rightarrow> 'd Position \<Rightarrow> 'd \<Rightarrow> 'd \<Rightarrow> bool" where
  "within_follow_distance K pos1 pos2 lat lon \<longleftrightarrow>
     less_double K
       (divide_double K (fabs K (minus_double K (latitude_deg pos1) lat))
          (LATITUDE_DEG_PER_METER K))
       (literal K 5)
     \<and> less_double K
         (divide_double K (fabs K (minus_double K (longitude_deg pos2) lon))
            (LONGITUDE_DEG_PER_METER K))
         (literal K 5)"

subsection \<open>Sample inputs\<close>

text \<open>
  Concrete inputs on which the theorems below are tried. In \<open>sample_constants\<close> the values
  of \<^verbatim>\<open>double\<close> are real numbers and the division rounds to a multiple of 1/1024: an
  example of an arithmetic that rounds, not the one of the machine. Its two constants
  are examples, not the values of the missing header.
\<close>

definition sample_constants :: "real rcs_constants" where
  "sample_constants =
     \<lparr>minus_double = (\<lambda>a b. a - b),
      fabs = abs,
      divide_double = (\<lambda>a b. of_int (round (a / b * 1024)) / 1024),
      less_double = (\<lambda>a b. a < b),
      literal = (\<lambda>x. x),
      LATITUDE_DEG_PER_METER = 1 / 100000,
      LONGITUDE_DEG_PER_METER = 1 / 50000\<rparr>"

definition vehicle_position :: "real Position" where
  "vehicle_position =
     \<lparr>latitude_deg = 57, longitude_deg = 12, relative_altitude_m = 8\<rparr>"

definition quiet_tick :: "real tick" where
  "quiet_tick = \<lparr>running = True, callbacks = []\<rparr>"

definition stopped_tick :: "real tick" where
  "stopped_tick = \<lparr>running = False, callbacks = []\<rparr>"

text \<open>
  A flight in which everything succeeds: the system is found at the second look, is
  healthy at the second poll, climbs in two seconds, follows for two seconds until the
  provider stops, and is on the ground at the second poll after the land command.
\<close>

definition nominal_env :: "real env" where
  "nominal_env =
     \<lparr>bin_name = ''follow_me'',
      args = [''udp://:14540''],
      connection_result = ConnectionSuccess,
      discoveries = [Nil, [7]],
      system_uuids_at_size = [7],
      system_uuids_at_front = [7],
      health_all_ok = [False, True],
      armed = False,
      arm_result = ActionSuccess,
      in_air = False,
      takeoff_result = ActionSuccess,
      positions = [vehicle_position\<lparr>relative_altitude_m := 1\<rparr>,
                   vehicle_position\<lparr>relative_altitude_m := 5 / 2\<rparr>],
      start_result = FollowMeSuccess,
      ticks = [\<lparr>running = True,
                 callbacks = [FlightModeUpdate FollowMe (TargetLocation 57 12),
                              LocationFix 57 12 vehicle_position vehicle_position]\<rparr>,
               quiet_tick, stopped_tick],
      stop_result = FollowMeSuccess,
      callbacks_during_stop = [],
      land_result = ActionSuccess,
      fixes_during_land = [],
      landing = [\<lparr>still_in_air = True, fixes_while_asleep = []\<rparr>,
                 \<lparr>still_in_air = False, fixes_while_asleep = []\<rparr>]\<rparr>"

text \<open>
  The nominal flight, except that in the second round of the follow loop the flight mode
  is reported as changed, between two location fixes.
\<close>

definition change_env :: "real env" where
  "change_env = nominal_env\<lparr>ticks :=
       [quiet_tick,
        \<lparr>running = True,
         callbacks = [LocationFix 57 12 vehicle_position vehicle_position,
                      FlightModeUpdate (OtherFlightMode 4) (TargetLocation 57 12),
                      LocationFix 57 12 vehicle_position vehicle_position]\<rparr>,
        quiet_tick]\<rparr>"






text \<open>
  The nominal flight, except that a second system is discovered between the two calls
  of \<^verbatim>\<open>dc.system_uuids()\<close>.
\<close>

definition second_system_env :: "real env" where
  "second_system_env = nominal_env\<lparr>system_uuids_at_front := [7, 9]\<rparr>"

text \<open>
  The nominal flight, except that the flight mode is reported as changed once the
  follow-me stop has been sent, before the flight-mode subscription ends.
\<close>

definition change_at_stop_env :: "real env" where
  "change_at_stop_env = nominal_env\<lparr>callbacks_during_stop :=
       [FlightModeUpdate (OtherFlightMode 4) (TargetLocation 57 12)]\<rparr>"

text \<open>
  The nominal flight, except that a location fix arrives during the landing wait.
\<close>

definition late_fix_env :: "real env" where
  "late_fix_env = nominal_env\<lparr>landing :=
       [\<lparr>still_in_air = True,
         fixes_while_asleep = [(57, 12, vehicle_position, vehicle_position)]\<rparr>,
        \<lparr>still_in_air = False, fixes_while_asleep = []\<rparr>]\<rparr>"

section \<open>Properties\<close>

subsection \<open>Sequencing\<close>

lemma fst_step [simp]: "fst (step es) = es"
  by (simp add: step_def)

lemma snd_step [simp]: "snd (step es) = None"
  by (simp add: step_def)

lemma fst_halt [simp]: "fst (halt es oc) = es"
  by (simp add: halt_def)

lemma snd_halt [simp]: "snd (halt es oc) = Some oc"
  by (simp add: halt_def)

lemma fst_emit [simp]: "fst (emit es p) = es @ fst p"
  by (simp add: emit_def)

lemma snd_emit [simp]: "snd (emit es p) = snd p"
  by (simp add: emit_def)

lemma fst_seq: "fst (seq p q) = (if snd p = None then fst p @ fst q else fst p)"
  by (simp add: seq_def split: option.splits)

lemma snd_seq: "snd (seq p q) = (if snd p = None then snd q else snd p)"
  by (simp add: seq_def split: option.splits)

lemma seq_halts [simp]: "snd p = Some oc \<Longrightarrow> seq p q = p"
  by (simp add: seq_def)

lemma seq_goes_on: "snd p = None \<Longrightarrow> seq p q = emit (fst p) q"
  by (simp add: seq_def)

lemma fst_finish [simp]: "fst (finish p) = fst p"
  by (simp add: finish_def split: option.splits)

lemma snd_finish: "snd (finish p) = (case snd p of Some oc \<Rightarrow> oc | None \<Rightarrow> Returned 0)"
  by (simp add: finish_def split: option.splits)

lemma phase_eqI: "fst p = es \<Longrightarrow> snd p = r \<Longrightarrow> p = (es, r)"
  by auto

lemmas program_defs =
  startup_def connect_def argc_def usage_def discover_def select_system_def preflight_def
  arm_def takeoff_def start_follow_me_def shutdown_def action_error_exit_def
  follow_me_error_exit_def flight_mode_callback_def location_callback_def
  MAX_FOLLOW_DISTANCE_METERS_def MAX_SECONDS_TO_FOLLOW_def EXIT_FAILURE_def
  mode_changed_message_def round_events_def

lemmas sample_defs =
  nominal_env_def sample_constants_def vehicle_position_def quiet_tick_def stopped_tick_def
  round_def


lemmas phase_defs = seq_def emit_def step_def halt_def finish_def

lemma seq_assoc: "seq (seq p q) r = seq p (seq q r)"
  by (cases p; cases q; cases r) (auto simp: seq_def emit_def split: option.splits)

lemma seq_step_left [simp]: "seq (step es) q = emit es q"
  by (simp add: seq_def)

lemma emit_Nil [simp]: "emit [] p = p"
  by (simp add: emit_def)

lemma emit_emit [simp]: "emit es (emit fs p) = emit (es @ fs) p"
  by (simp add: emit_def)

lemma deliver_append: "deliver K (xs @ ys) = seq (deliver K xs) (deliver K ys)"
  by (induction xs) (simp_all add: seq_assoc)

subsection \<open>The events of each piece\<close>

lemma discovery_loop_events:
  "ev \<in> set (fst (discovery_loop ds)) \<Longrightarrow> (\<exists>u. ev = PrintDiscovered u) \<or> ev = SleepFor 1"
  by (induction ds) (auto split: if_splits)

lemma wait_health_events:
  "ev \<in> set (fst (wait_health hs)) \<Longrightarrow>
     (\<exists>b. ev = HealthAllOk b) \<or> ev = Stdout ''Waiting for system to be ready'' \<or> ev = SleepFor 1"
  by (induction hs) (auto split: if_splits)

lemma wait_altitude_events:
  "ev \<in> set (fst (wait_altitude ps)) \<Longrightarrow> (\<exists>a. ev = RelativeAltitude a) \<or> ev = SleepFor 1"
  by (induction ps) (auto split: if_splits)

lemma location_callback_events:
  "ev \<in> set (fst (location_callback K pos1 pos2 lat lon)) \<Longrightarrow>
     (\<exists>l. ev = SetTargetLocation l) \<or> (\<exists>x y. ev = PrintSkipped x y)"
  by (auto simp: location_callback_def Let_def split: if_splits)

lemma location_callback_goes_on [simp]: "snd (location_callback K pos1 pos2 lat lon) = None"
  by (simp add: location_callback_def Let_def)

lemma deliver_fixes_goes_on [simp]: "snd (deliver_fixes K fs) = None"
  by (induction K fs rule: deliver_fixes.induct) (auto simp: snd_seq)

lemma deliver_fixes_events:
  "ev \<in> set (fst (deliver_fixes K fs)) \<Longrightarrow>
     (\<exists>l. ev = SetTargetLocation l) \<or> (\<exists>x y. ev = PrintSkipped x y)"
  by (induction K fs rule: deliver_fixes.induct)
     (auto simp: fst_seq dest!: location_callback_events)

lemma wait_landed_events:
  "ev \<in> set (fst (wait_landed K ps)) \<Longrightarrow>
     (\<exists>b. ev = InAir b) \<or> ev = Stdout ''waiting until landed'' \<or> ev = SleepFor 1
     \<or> (\<exists>l. ev = SetTargetLocation l) \<or> (\<exists>x y. ev = PrintSkipped x y)"
  by (induction ps) (auto simp: fst_seq split: if_splits dest: deliver_fixes_events)

lemma run_callback_events:
  "ev \<in> set (fst (run_callback K cb)) \<Longrightarrow>
     ev = mode_changed_message \<or> (\<exists>m x y. ev = PrintVehicleAt m x y)
     \<or> (\<exists>l. ev = SetTargetLocation l) \<or> (\<exists>x y. ev = PrintSkipped x y)"
  by (cases cb)
     (auto simp: flight_mode_callback_def location_callback_def mode_changed_message_def Let_def
           split: if_splits)

lemma deliver_events:
  "ev \<in> set (fst (deliver K cbs)) \<Longrightarrow>
     ev = mode_changed_message \<or> (\<exists>m x y. ev = PrintVehicleAt m x y)
     \<or> (\<exists>l. ev = SetTargetLocation l) \<or> (\<exists>x y. ev = PrintSkipped x y)"
  by (induction cbs) (auto simp: fst_seq split: if_splits dest: run_callback_events)

lemma follow_loop_events:
  "ev \<in> set (fst (follow_loop K c ts)) \<Longrightarrow>
     (\<exists>b. ev = IsRunning b) \<or> ev = SleepFor 1
     \<or> ev = mode_changed_message \<or> (\<exists>m x y. ev = PrintVehicleAt m x y)
     \<or> (\<exists>l. ev = SetTargetLocation l) \<or> (\<exists>x y. ev = PrintSkipped x y)"
  by (induction ts arbitrary: c) (auto simp: fst_seq Let_def split: if_splits dest: deliver_events)

subsection \<open>Callbacks and the follow loop\<close>

lemma run_callback_outcome:
  "snd (run_callback K cb) = None \<or> snd (run_callback K cb) = Some (Exited 0)"
  by (cases cb) (auto simp: flight_mode_callback_def location_callback_def Let_def)

lemma run_callback_message:
  "mode_changed_message \<in> set (fst (run_callback K cb)) \<longleftrightarrow> snd (run_callback K cb) = Some (Exited 0)"
  by (cases cb) (auto simp: flight_mode_callback_def location_callback_def Let_def mode_changed_message_def)

lemma deliver_message:
  "mode_changed_message \<in> set (fst (deliver K cbs)) \<longleftrightarrow> snd (deliver K cbs) = Some (Exited 0)"
  by (induction cbs) (use run_callback_outcome run_callback_message in \<open>auto simp: fst_seq snd_seq\<close>)

lemma deliver_outcome:
  "snd (deliver K cbs) = None \<or> snd (deliver K cbs) = Some (Exited 0)"
  by (induction cbs) (use run_callback_outcome in \<open>auto simp: snd_seq\<close>)


lemma follow_loop_message:
  "mode_changed_message \<in> set (fst (follow_loop K c ts)) \<longleftrightarrow>
     snd (follow_loop K c ts) = Some (Exited 0)"
proof (induction ts arbitrary: c)
  case Nil
  then show ?case by (simp add: mode_changed_message_def)
next
  case (Cons t ts)
  show ?case
    using Cons.IH [of "c + 1"] deliver_message [of K "callbacks t"] deliver_outcome [of K "callbacks t"]
    by (auto simp: fst_seq snd_seq Let_def mode_changed_message_def)
qed

lemma follow_loop_quiet_round:
  assumes "running t" and "snd (deliver K (callbacks t)) = None"
    and "c + 1 < MAX_SECONDS_TO_FOLLOW"
  shows "follow_loop K c (t # rest) = emit (round_events K t) (follow_loop K (c + 1) rest)"
  using assms by (simp add: seq_goes_on round_events_def Let_def)

lemma follow_loop_quiet_rounds:
  assumes "\<forall>t \<in> set earlier. running t \<and> snd (deliver K (callbacks t)) = None"
    and "c + int (length earlier) < MAX_SECONDS_TO_FOLLOW"
  shows "follow_loop K c (earlier @ rest) =
           emit (concat (map (round_events K) earlier))
             (follow_loop K (c + int (length earlier)) rest)"
  using assms
proof (induction earlier arbitrary: c)
  case Nil
  then show ?case by simp
next
  case (Cons t ts)
  have step: "follow_loop K c (t # ts @ rest) =
                emit (round_events K t) (follow_loop K (c + 1) (ts @ rest))"
    using Cons.prems by (intro follow_loop_quiet_round) auto
  have "follow_loop K (c + 1) (ts @ rest) =
          emit (concat (map (round_events K) ts)) (follow_loop K (c + 1 + int (length ts)) rest)"
    using Cons.prems by (intro Cons.IH) auto
  moreover have "c + 1 + int (length ts) = c + int (length (t # ts))"
    by simp
  ultimately show ?case
    using step by (simp del: follow_loop.simps)
qed

lemma follow_loop_mode_change:
  assumes "flight_mode \<noteq> FollowMe"
    and "running t"
    and "callbacks t = before @ FlightModeUpdate flight_mode loc # after"
    and "snd (deliver K before) = None"
  shows "follow_loop K c (t # rest) =
           ([IsRunning True, SleepFor 1] @ fst (deliver K before) @ [mode_changed_message],
            Some (Exited 0))"
proof -
  have "deliver K (callbacks t) = (fst (deliver K before) @ [mode_changed_message], Some (Exited 0))"
    using assms
    by (simp add: deliver_append seq_goes_on flight_mode_callback_def mode_changed_message_def
          emit_def halt_def)
  then show ?thesis
    using assms(2) by (simp add: emit_def)
qed

lemma connect_events:
  "ev \<in> set (fst (connect e)) \<Longrightarrow>
     (\<exists>u. ev = AddAnyConnection u) \<or> (\<exists>r. ev = PrintConnectionFailed r) \<or> ev \<in> set (usage (bin_name e))"
  by (auto simp: connect_def Let_def split: if_splits)

lemma discover_events:
  "ev \<in> set (fst (discover e)) \<Longrightarrow>
     ev = Stdout ''Waiting to discover system...'' \<or> ev = RegisterOnDiscover
     \<or> (\<exists>u. ev = PrintDiscovered u) \<or> ev = SleepFor 1 \<or> (\<exists>us. ev = SystemUuids us)
     \<or> ev = Stdout ''Discovered more than one system! Exiting.'' \<or> (\<exists>u. ev = SelectSystem u)"
  by (auto simp: discover_def select_system_def fst_seq split: if_splits list.splits
           dest: discovery_loop_events)

lemma preflight_events:
  "ev \<in> set (fst (preflight e)) \<Longrightarrow>
     (\<exists>b. ev = HealthAllOk b) \<or> ev = Stdout ''Waiting for system to be ready'' \<or> ev = SleepFor 1
     \<or> ev = Stdout ''System is ready'' \<or> (\<exists>b. ev = Armed b) \<or> ev = ArmCmd
     \<or> (\<exists>m r. ev = StderrAction m r) \<or> ev = Stdout ''Armed'' \<or> (\<exists>b. ev = InAir b)
     \<or> ev = TakeoffCmd \<or> (\<exists>a. ev = RelativeAltitude a) \<or> ev = Stdout ''In Air...''"
  by (auto simp: preflight_def arm_def takeoff_def action_error_exit_def fst_seq
           split: if_splits dest: wait_health_events wait_altitude_events)

lemma start_follow_me_events:
  "ev \<in> set (fst (start_follow_me e)) \<Longrightarrow>
     (\<exists>c. ev = SetConfig c) \<or> ev = FollowMeStart \<or> (\<exists>m r. ev = StderrFollowMe m r)
     \<or> ev = SubscribeFlightMode \<or> (\<exists>h p q. ev = RequestLocationUpdates h p q)"
  by (auto simp: start_follow_me_def follow_me_error_exit_def fst_seq split: if_splits)

lemma startup_events:
  assumes "ev \<in> set (fst (startup e))"
  shows "ev \<noteq> mode_changed_message \<and> ev \<noteq> FollowMeStop \<and> ev \<noteq> LandCmd
         \<and> ev \<noteq> UnsubscribeFlightMode"
proof -
  have "ev \<in> set (fst (connect e)) \<or> ev \<in> set (fst (discover e))
        \<or> ev \<in> set (fst (preflight e)) \<or> ev \<in> set (fst (start_follow_me e))"
    using assms by (auto simp: startup_def fst_seq split: if_splits)
  then show ?thesis
    by (auto simp: mode_changed_message_def usage_def
             dest: connect_events discover_events preflight_events start_follow_me_events)
qed

lemma follow_loop_no_shutdown_events:
  assumes "ev \<in> set (fst (follow_loop K c ts))"
  shows "ev \<noteq> FollowMeStop \<and> ev \<noteq> LandCmd \<and> ev \<noteq> UnsubscribeFlightMode"
  using follow_loop_events [OF assms] by (auto simp: mode_changed_message_def)

subsection \<open>How the follow loop ends\<close>

lemma deliver_last:
  "snd (deliver K cbs) = Some (Exited 0) \<Longrightarrow>
     fst (deliver K cbs) \<noteq> [] \<and> last (fst (deliver K cbs)) = mode_changed_message"
proof (induction cbs)
  case Nil
  then show ?case by simp
next
  case (Cons cb cbs)
  show ?case
  proof (cases "snd (run_callback K cb) = None")
    case True
    with Cons show ?thesis by (simp add: fst_seq snd_seq)
  next
    case False
    then have "fst (run_callback K cb) = [mode_changed_message]"
      by (cases cb)
         (auto simp: flight_mode_callback_def location_callback_def Let_def
            mode_changed_message_def split: if_splits)
    with False show ?thesis by (auto simp: fst_seq)
  qed
qed

lemma follow_loop_last:
  "snd (follow_loop K c ts) = Some (Exited 0) \<Longrightarrow>
     fst (follow_loop K c ts) \<noteq> [] \<and> last (fst (follow_loop K c ts)) = mode_changed_message"
proof (induction ts arbitrary: c)
  case Nil
  then show ?case by simp
next
  case (Cons t ts)
  from Cons.prems have r: "running t"
    by (auto split: if_splits)
  show ?case
  proof (cases "snd (deliver K (callbacks t)) = None")
    case True
    with Cons.prems r have "snd (follow_loop K (c + 1) ts) = Some (Exited 0)"
      by (auto simp: snd_seq Let_def split: if_splits)
    from Cons.IH [OF this] True r Cons.prems show ?thesis
      by (auto simp: fst_seq snd_seq Let_def split: if_splits)
  next
    case False
    then have "snd (deliver K (callbacks t)) = Some (Exited 0)"
      using deliver_outcome [of K "callbacks t"] by auto
    from deliver_last [OF this] False r show ?thesis
      by (auto simp: fst_seq)
  qed
qed

lemma deliver_no_loop_events:
  "count_list (fst (deliver K cbs)) (SleepFor n) = 0"
  "count_list (fst (deliver K cbs)) (IsRunning b) = 0"
  using deliver_events [of _ K cbs]
  by (auto simp: count_list_0_iff mode_changed_message_def)

lemma follow_loop_sleeps_each_round:
  "count_list (fst (follow_loop K c ts)) (SleepFor 1)
     = count_list (fst (follow_loop K c ts)) (IsRunning True)"
  by (induction ts arbitrary: c) (simp_all add: fst_seq Let_def deliver_no_loop_events)

lemma follow_loop_sleeps_bounded:
  "int (count_list (fst (follow_loop K c ts)) (SleepFor 1)) \<le> max 1 (MAX_SECONDS_TO_FOLLOW - c)"
proof (induction ts arbitrary: c)
  case Nil
  then show ?case by simp
next
  case (Cons t ts)
  show ?case
    using Cons.IH [of "c + 1"]
    by (auto simp: fst_seq Let_def deliver_no_loop_events)
qed

lemma follow_loop_returns:
  assumes "c < MAX_SECONDS_TO_FOLLOW" and "MAX_SECONDS_TO_FOLLOW - c \<le> int (length ts)"
  shows "snd (follow_loop K c ts) \<noteq> Some Waiting"
  using assms
proof (induction ts arbitrary: c)
  case Nil
  then show ?case by simp
next
  case (Cons t ts)
  show ?case
  proof (cases "c + 1 < MAX_SECONDS_TO_FOLLOW")
    case True
    then have "snd (follow_loop K (c + 1) ts) \<noteq> Some Waiting"
      using Cons.prems by (intro Cons.IH) auto
    then show ?thesis
      using deliver_outcome [of K "callbacks t"] by (auto simp: snd_seq Let_def)
  next
    case False
    then show ?thesis
      using deliver_outcome [of K "callbacks t"] by (auto simp: snd_seq Let_def)
  qed
qed

lemma follow_loop_last_round:
  assumes "running t" and "snd (deliver K (callbacks t)) = None"
    and "c + 1 \<ge> MAX_SECONDS_TO_FOLLOW"
  shows "follow_loop K c (t # rest) = (round_events K t, None)"
  using assms by (simp add: seq_goes_on round_events_def Let_def emit_def step_def)

subsection \<open>How each piece can end\<close>

lemma discovery_loop_outcome:
  "snd (discovery_loop ds) = (if \<exists>us \<in> set ds. us \<noteq> [] then None else Some Waiting)"
  by (induction ds) auto

lemma discovery_loop_blocked:
  "\<forall>us \<in> set ds. us = [] \<Longrightarrow>
     discovery_loop ds = (replicate (length ds) (SleepFor 1), Some Waiting)"
  by (induction ds) (auto simp: halt_def emit_def)

lemma select_system_outcome:
  "snd (select_system uuids_at_size uuids_at_front) =
     (if length uuids_at_size > 1 then Some (Exited 1)
      else if uuids_at_front = [] then Some Undefined else None)"
  by (auto simp: select_system_def split: list.splits)

lemma main_stops_in_startup:
  "snd (startup e) = Some oc \<Longrightarrow> main K e = (fst (startup e), oc)"
  by (simp add: main_def finish_def)

lemma startup_stops_in_discover:
  "snd (connect e) = None \<Longrightarrow> snd (discover e) = Some oc \<Longrightarrow>
     startup e = (fst (connect e) @ fst (discover e), Some oc)"
  by (simp add: startup_def seq_goes_on emit_def)

lemma wait_health_outcome:
  "snd (wait_health hs) = (if True \<in> set hs then None else Some Waiting)"
  by (induction hs) auto

lemma wait_altitude_outcome:
  "snd (wait_altitude ps) = None \<or> snd (wait_altitude ps) = Some Waiting"
  by (induction ps) auto

lemma wait_landed_outcome:
  "snd (wait_landed K ps) =
     (if \<exists>p \<in> set ps. \<not> still_in_air p then None else Some Waiting)"
  by (induction ps) (auto simp: snd_seq)

lemma connect_outcome:
  "snd (connect e) = None \<or> snd (connect e) = Some (Returned 1)"
  by (auto simp: connect_def Let_def)

lemma discover_outcome:
  "snd (discover e) \<in> {None, Some Waiting, Some (Exited 1), Some Undefined}"
  by (auto simp: discover_def snd_seq discovery_loop_outcome select_system_def
        split: list.splits)

lemma preflight_outcome:
  "snd (preflight e) \<in> {None, Some Waiting, Some (Exited EXIT_FAILURE)}"
  using wait_altitude_outcome [of "positions e"]
  by (auto simp: preflight_def arm_def takeoff_def action_error_exit_def snd_seq
        wait_health_outcome)

lemma start_follow_me_outcome:
  "snd (start_follow_me e) \<in> {None, Some (Exited EXIT_FAILURE)}"
  by (auto simp: start_follow_me_def follow_me_error_exit_def snd_seq)

lemma startup_outcome:
  "snd (startup e) \<in>
     {None, Some (Returned 1), Some Waiting, Some (Exited 1), Some Undefined,
      Some (Exited EXIT_FAILURE)}"
  using connect_outcome [of e] discover_outcome [of e] preflight_outcome [of e]
    start_follow_me_outcome [of e]
  by (auto simp: startup_def snd_seq)

lemma follow_loop_outcome:
  "snd (follow_loop K c ts) \<in> {None, Some Waiting, Some (Exited 0)}"
proof (induction ts arbitrary: c)
  case Nil
  then show ?case by simp
next
  case (Cons t ts)
  show ?case
    using Cons.IH [of "c + 1"] deliver_outcome [of K "callbacks t"]
    by (auto simp: snd_seq Let_def)
qed


lemma shutdown_outcome:
  "snd (shutdown K e) \<in> {None, Some Waiting, Some (Exited EXIT_FAILURE), Some (Exited 0)}"
  using deliver_outcome [of K "callbacks_during_stop e"]
  by (auto simp: shutdown_def follow_me_error_exit_def action_error_exit_def snd_seq
        wait_landed_outcome)

lemma main_returns_0:
  "snd (main K e) = Returned 0 \<longleftrightarrow>
     snd (startup e) = None \<and> snd (follow_loop K 0 (ticks e)) = None
     \<and> snd (shutdown K e) = None"
  using startup_outcome [of e] follow_loop_outcome [of K 0 "ticks e"] shutdown_outcome [of K e]
  by (auto simp: main_def snd_finish snd_seq EXIT_FAILURE_def)

subsection \<open>The shutdown trace\<close>

lemma main_thread_events_append [simp]:
  "main_thread_events (xs @ ys) = main_thread_events xs @ main_thread_events ys"
  by (simp add: main_thread_events_def)

lemma main_thread_events_Nil [simp]: "main_thread_events [] = []"
  by (simp add: main_thread_events_def)

lemma main_thread_events_Cons [simp]:
  "main_thread_events (ev # tr) =
     (if callback_event ev then main_thread_events tr else ev # main_thread_events tr)"
  by (simp add: main_thread_events_def)

lemma main_thread_events_deliver [simp]: "main_thread_events (fst (deliver K cbs)) = []"
  by (auto simp: main_thread_events_def filter_empty_conv mode_changed_message_def
        dest!: deliver_events)

lemma main_thread_events_deliver_fixes [simp]:
  "main_thread_events (fst (deliver_fixes K fs)) = []"
  by (auto simp: main_thread_events_def filter_empty_conv dest!: deliver_fixes_events)

lemma main_thread_events_landing_round [simp]:
  "main_thread_events landing_round = landing_round"
  by (simp add: landing_round_def)

lemma main_thread_events_replicate_landing_round [simp]:
  "main_thread_events (concat (replicate n landing_round)) = concat (replicate n landing_round)"
  by (induction n) simp_all

lemma wait_landed_trace:
  "snd (wait_landed K ps) = None \<Longrightarrow>
     \<exists>n. main_thread_events (fst (wait_landed K ps))
            = concat (replicate n landing_round) @ [InAir False]
         \<and> n < length ps \<and> \<not> still_in_air (ps ! n) \<and> (\<forall>i < n. still_in_air (ps ! i))"
proof (induction ps)
  case Nil
  then show ?case by simp
next
  case (Cons p ps)
  show ?case
  proof (cases "still_in_air p")
    case True
    with Cons.prems have "snd (wait_landed K ps) = None" by (simp add: snd_seq)
    from Cons.IH [OF this] obtain n where
      n: "main_thread_events (fst (wait_landed K ps))
            = concat (replicate n landing_round) @ [InAir False]"
         "n < length ps" "\<not> still_in_air (ps ! n)" "\<forall>i < n. still_in_air (ps ! i)"
      by blast
    have "\<forall>i < Suc n. still_in_air ((p # ps) ! i)"
      using True n(4) by (auto simp: nth_Cons split: nat.splits)
    moreover have "main_thread_events (fst (wait_landed K (p # ps)))
                     = landing_round @ main_thread_events (fst (wait_landed K ps))"
      using True
      by (simp add: fst_seq landing_round_def)
    ultimately show ?thesis
      using n(1,2,3) by (intro exI [of _ "Suc n"]) simp
  next
    case False
    then show ?thesis
      by (intro exI [of _ 0]) simp
  qed
qed

lemma shutdown_trace:
  assumes "snd (shutdown K e) = None"
  shows "stop_result e = FollowMeSuccess \<and> land_result e = ActionSuccess
       \<and> snd (deliver K (callbacks_during_stop e)) = None
       \<and> (\<exists>n. main_thread_events (fst (shutdown K e)) =
                [FollowMeStop, UnsubscribeFlightMode, LandCmd]
                  @ concat (replicate n landing_round) @ [InAir False, Stdout ''Landed...'']
              \<and> n < length (landing e) \<and> \<not> still_in_air (landing e ! n)
              \<and> (\<forall>i < n. still_in_air (landing e ! i)))"
proof -
  have s: "stop_result e = FollowMeSuccess" and l: "land_result e = ActionSuccess"
    and d: "snd (deliver K (callbacks_during_stop e)) = None"
    and w: "snd (wait_landed K (landing e)) = None"
    using assms
    by (auto simp: shutdown_def follow_me_error_exit_def action_error_exit_def snd_seq
          split: if_splits)
  from wait_landed_trace [OF w] obtain n where
    n: "main_thread_events (fst (wait_landed K (landing e)))
          = concat (replicate n landing_round) @ [InAir False]"
       "n < length (landing e)" "\<not> still_in_air (landing e ! n)"
       "\<forall>i < n. still_in_air (landing e ! i)"
    by blast
  have "fst (shutdown K e) =
          [FollowMeStop] @ fst (deliver K (callbacks_during_stop e))
            @ [UnsubscribeFlightMode, LandCmd] @ fst (deliver_fixes K (fixes_during_land e))
            @ fst (wait_landed K (landing e)) @ [Stdout ''Landed...'']"
    using s l d w
    by (simp add: shutdown_def follow_me_error_exit_def action_error_exit_def fst_seq snd_seq)
  then have "main_thread_events (fst (shutdown K e)) =
          [FollowMeStop, UnsubscribeFlightMode, LandCmd]
            @ concat (replicate n landing_round) @ [InAir False, Stdout ''Landed...'']"
    using n(1) by simp
  with s l d n(2,3,4) show ?thesis by blast
qed

lemma shutdown_message:
  assumes "mode_changed_message \<in> set (fst (shutdown K e))"
  shows "stop_result e = FollowMeSuccess
       \<and> snd (deliver K (callbacks_during_stop e)) = Some (Exited 0)
       \<and> shutdown K e =
           ([FollowMeStop] @ fst (deliver K (callbacks_during_stop e)), Some (Exited 0))"
proof -
  have s: "stop_result e = FollowMeSuccess"
    using assms
    by (auto simp: shutdown_def follow_me_error_exit_def mode_changed_message_def fst_seq
          split: if_splits)
  have d: "snd (deliver K (callbacks_during_stop e)) = Some (Exited 0)"
  proof (rule ccontr)
    assume "snd (deliver K (callbacks_during_stop e)) \<noteq> Some (Exited 0)"
    then have n: "snd (deliver K (callbacks_during_stop e)) = None"
      and m: "mode_changed_message \<notin> set (fst (deliver K (callbacks_during_stop e)))"
      using deliver_outcome [of K "callbacks_during_stop e"] by (auto simp: deliver_message)
    show False
      using assms s n m
      by (auto simp: shutdown_def follow_me_error_exit_def action_error_exit_def fst_seq
            mode_changed_message_def
            split: if_splits dest: wait_landed_events deliver_fixes_events)
  qed
  have "shutdown K e =
          ([FollowMeStop] @ fst (deliver K (callbacks_during_stop e)), Some (Exited 0))"
    using s d
    by (intro phase_eqI) (simp_all add: shutdown_def follow_me_error_exit_def fst_seq snd_seq)
  with s d show ?thesis by simp
qed

lemma location_callback_test:
  "location_callback K pos1 pos2 lat lon =
     (if within_follow_distance K pos1 pos2 lat lon
      then ([SetTargetLocation (TargetLocation lat lon)], None)
      else ([PrintSkipped lat lon], None))"
  by (simp add: location_callback_def within_follow_distance_def MAX_FOLLOW_DISTANCE_METERS_def
        step_def Let_def)

subsection \<open>The preflight trace\<close>

lemma wait_health_reports_ok:
  "snd (wait_health hs) = None \<Longrightarrow> HealthAllOk True \<in> set (fst (wait_health hs))"
  by (induction hs) (auto split: if_splits)

lemma wait_altitude_trace:
  "snd (wait_altitude ps) = None \<Longrightarrow>
     \<exists>low p rest. ps = low @ p # rest
       \<and> (\<forall>q \<in> set low. relative_altitude_m q < 2.4) \<and> 2.4 \<le> relative_altitude_m p
       \<and> fst (wait_altitude ps) =
           concat (map climb_round low) @ [RelativeAltitude (relative_altitude_m p)]"
proof (induction ps)
  case Nil
  then show ?case by simp
next
  case (Cons a ps)
  show ?case
  proof (cases "relative_altitude_m a < 2.4")
    case True
    with Cons.prems have "snd (wait_altitude ps) = None" by simp
    from Cons.IH [OF this] obtain low p rest where
      *: "ps = low @ p # rest" "\<forall>q \<in> set low. relative_altitude_m q < 2.4"
         "2.4 \<le> relative_altitude_m p"
         "fst (wait_altitude ps) =
            concat (map climb_round low) @ [RelativeAltitude (relative_altitude_m p)]"
      by blast
    have "fst (wait_altitude (a # ps)) = climb_round a @ fst (wait_altitude ps)"
      using True by (simp add: climb_round_def)
    then show ?thesis
      using True *
      by (intro exI [of _ "a # low"], intro exI [of _ p], intro exI [of _ rest])
         (simp del: wait_altitude.simps)
  next
    case False
    then show ?thesis
      by (intro exI [of _ "[]"], intro exI [of _ a], intro exI [of _ ps]) simp
  qed
qed

lemma arm_outcome:
  "snd (arm e) = (if armed e \<or> arm_result e = ActionSuccess then None
                  else Some (Exited EXIT_FAILURE))"
  by (simp add: arm_def action_error_exit_def snd_seq)

lemma ArmCmd_in_arm: "ArmCmd \<in> set (fst (arm e)) \<longleftrightarrow> \<not> armed e"
  by (simp add: arm_def action_error_exit_def fst_seq)

lemma TakeoffCmd_in_arm: "TakeoffCmd \<notin> set (fst (arm e))"
  by (simp add: arm_def action_error_exit_def fst_seq)

lemma ArmCmd_in_takeoff: "ArmCmd \<notin> set (fst (takeoff e))"
  by (auto simp: takeoff_def action_error_exit_def fst_seq dest: wait_altitude_events)

lemma TakeoffCmd_in_takeoff: "TakeoffCmd \<in> set (fst (takeoff e)) \<longleftrightarrow> \<not> in_air e"
  by (auto simp: takeoff_def action_error_exit_def fst_seq)

lemma wait_health_no_command:
  "ArmCmd \<notin> set (fst (wait_health hs))" "TakeoffCmd \<notin> set (fst (wait_health hs))"
  by (auto dest: wait_health_events)

lemma preflight_trace:
  "fst (preflight e) =
     (if True \<in> set (health_all_ok e)
      then fst (wait_health (health_all_ok e)) @ [Stdout ''System is ready'']
             @ fst (seq (arm e) (takeoff e))
      else fst (wait_health (health_all_ok e)))"
  by (simp add: preflight_def fst_seq wait_health_outcome)

lemma health_before_command:
  fixes e :: "'d env"
  assumes "True \<in> set (health_all_ok e)" and "cmd = ArmCmd \<or> cmd = TakeoffCmd"
  shows "HealthAllOk True \<in> set (takeWhile (\<lambda>ev. ev \<noteq> cmd) (fst (preflight e)))"
proof -
  let ?h = "fst (wait_health (health_all_ok e) :: 'd phase)"
  have "\<forall>ev \<in> set ?h. ev \<noteq> cmd"
    using assms(2) wait_health_no_command [of "health_all_ok e"] by auto
  then have "takeWhile (\<lambda>ev. ev \<noteq> cmd) (fst (preflight e)) =
               ?h @ takeWhile (\<lambda>ev. ev \<noteq> cmd) ([Stdout ''System is ready''] @ fst (seq (arm e) (takeoff e)))"
    using assms(1) by (simp add: preflight_trace takeWhile_append2)
  moreover have "HealthAllOk True \<in> set ?h"
    using assms(1) by (intro wait_health_reports_ok) (simp add: wait_health_outcome)
  ultimately show ?thesis by simp
qed

lemma wait_altitude_returns:
  "snd (wait_altitude ps) =
     (if \<exists>p \<in> set ps. 2.4 \<le> relative_altitude_m p then None else Some Waiting)"
  by (induction ps) (auto simp: not_less)

lemma preflight_returns:
  assumes "True \<in> set (health_all_ok e)"
    and "armed e \<or> arm_result e = ActionSuccess"
    and "in_air e \<or> takeoff_result e = ActionSuccess
           \<and> (\<exists>p \<in> set (positions e). 2.4 \<le> relative_altitude_m p)"
  shows "snd (preflight e) = None"
  using assms
  by (auto simp: preflight_def takeoff_def action_error_exit_def snd_seq wait_health_outcome
        arm_outcome wait_altitude_returns)

subsection \<open>Where a refused command leaves the run\<close>

lemma seq_fails_right:
  "snd p = None \<Longrightarrow> snd q = Some oc \<and> suffix xs (fst q) \<Longrightarrow>
     snd (seq p q) = Some oc \<and> suffix xs (fst (seq p q))"
  by (simp add: fst_seq snd_seq suffix_appendI)

lemma emit_fails:
  "snd p = Some oc \<and> suffix xs (fst p) \<Longrightarrow>
     snd (emit es p) = Some oc \<and> suffix xs (fst (emit es p))"
  by (simp add: suffix_appendI)






lemma suffix_last_two: "suffix [x, y] (xs @ [x, y])"
  by (simp add: suffix_def)







subsection \<open>Usage and connection errors\<close>

text \<open>
  Claim C8. When the program is not started with exactly one argument (\<^verbatim>\<open>argc != 2\<close>), it
  prints the six lines of the usage text, the first of which names the program, and
  returns 1; no connection is opened. When it is started with one argument and
  \<^verbatim>\<open>add_any_connection\<close> does not return \<open>Success\<close>, it prints the failure and returns 1:
  the trace is the connection attempt and the message, so no discovery and no flight
  command has happened.
\<close>

theorem usage_or_connection_failure_returns_1:
  "(argc e \<noteq> 2 \<longrightarrow>
      main K e =
        ([Stdout (''Usage : '' @ bin_name e @ '' <connection_url>''),
          Stdout ''Connection URL format should be :'',
          Stdout '' For TCP : tcp://[server_host][:server_port]'',
          Stdout '' For UDP : udp://[bind_host][:bind_port]'',
          Stdout '' For Serial : serial:///path/to/serial/dev[:baudrate]'',
          Stdout ''For example, to connect to the simulator use URL: udp://:14540''],
         Returned 1)
      \<and> (\<forall>url. AddAnyConnection url \<notin> set (fst (main K e))))
   \<and> (argc e = 2 \<and> connection_result e \<noteq> ConnectionSuccess \<longrightarrow>
      main K e = ([AddAnyConnection (hd (args e)),
                   PrintConnectionFailed (connection_result e)], Returned 1))"
  by (auto simp add: main_def startup_def connect_def finish_def usage_def)

theorem usage_or_connection_failure_returns_1_witness:
  "argc (nominal_env\<lparr>args := []\<rparr>) \<noteq> 2
   \<and> main sample_constants (nominal_env\<lparr>args := []\<rparr>) =
        ([Stdout ''Usage : follow_me <connection_url>'',
          Stdout ''Connection URL format should be :'',
          Stdout '' For TCP : tcp://[server_host][:server_port]'',
          Stdout '' For UDP : udp://[bind_host][:bind_port]'',
          Stdout '' For Serial : serial:///path/to/serial/dev[:baudrate]'',
          Stdout ''For example, to connect to the simulator use URL: udp://:14540''],
         Returned 1)
   \<and> argc (nominal_env\<lparr>connection_result := ConnectionFailure 3\<rparr>) = 2
   \<and> connection_result (nominal_env\<lparr>connection_result := ConnectionFailure 3\<rparr>)
       \<noteq> ConnectionSuccess
   \<and> main sample_constants (nominal_env\<lparr>connection_result := ConnectionFailure 3\<rparr>)
       = ([AddAnyConnection ''udp://:14540'', PrintConnectionFailed (ConnectionFailure 3)],
          Returned 1)"
  using usage_or_connection_failure_returns_1
          [of "nominal_env\<lparr>args := []\<rparr>" sample_constants]
        usage_or_connection_failure_returns_1
          [of "nominal_env\<lparr>connection_result := ConnectionFailure 3\<rparr>" sample_constants]
  by (simp add: argc_def nominal_env_def)

subsection \<open>The distance check of the location callback\<close>

text \<open>
  Claim C1. A location fix \<open>(lat, lon)\<close> that the location callback receives is passed to
  \<^verbatim>\<open>set_target_location\<close> exactly when the distance in latitude from the vehicle's
  position, divided by \<open>LATITUDE_DEG_PER_METER\<close>, is less than 5 and the distance in
  longitude, divided by \<open>LONGITUDE_DEG_PER_METER\<close>, is less than 5; otherwise nothing is
  passed on and the warning is printed. The difference, the absolute value, the quotient
  and the comparison are the ones that the program computes, in the arithmetic of
  \<^verbatim>\<open>double\<close>. The same holds for every fix of a sequence of fixes, in the order of their
  arrival: each one is answered by exactly one of the two.
\<close>

theorem location_fix_forwarded_iff_near:
  "run_callback K (LocationFix lat lon pos1 pos2) =
     (if less_double K
           (divide_double K (fabs K (minus_double K (latitude_deg pos1) lat))
              (LATITUDE_DEG_PER_METER K))
           (literal K 5)
         \<and> less_double K
             (divide_double K (fabs K (minus_double K (longitude_deg pos2) lon))
                (LONGITUDE_DEG_PER_METER K))
             (literal K 5)
      then ([SetTargetLocation (TargetLocation lat lon)], None)
      else ([PrintSkipped lat lon], None))
   \<and> deliver_fixes K fs =
       (map (\<lambda>(lat, lon, pos1, pos2).
               if within_follow_distance K pos1 pos2 lat lon
               then SetTargetLocation (TargetLocation lat lon)
               else PrintSkipped lat lon) fs,
        None)"
proof -
  have "fst (deliver_fixes K fs) =
          map (\<lambda>(lat, lon, pos1, pos2).
                 if within_follow_distance K pos1 pos2 lat lon
                 then SetTargetLocation (TargetLocation lat lon)
                 else PrintSkipped lat lon) fs"
    by (induction K fs rule: deliver_fixes.induct)
       (simp_all add: fst_seq location_callback_test)
  then have "deliver_fixes K fs =
       (map (\<lambda>(lat, lon, pos1, pos2).
               if within_follow_distance K pos1 pos2 lat lon
               then SetTargetLocation (TargetLocation lat lon)
               else PrintSkipped lat lon) fs, None)"
    by (intro phase_eqI) simp_all
  then show ?thesis
    using location_callback_test [of K pos1 pos2 lat lon]
    by (simp add: within_follow_distance_def)
qed

theorem location_fix_forwarded_iff_near_witness:
  "run_callback sample_constants
        (LocationFix (57 + 4 / 100000) (12 - 4 / 50000) vehicle_position vehicle_position)
       = ([SetTargetLocation (TargetLocation (57 + 4 / 100000) (12 - 4 / 50000))], None)
   \<and> run_callback sample_constants
        (LocationFix (57 + 4 / 100000) (12 - 6 / 50000) vehicle_position vehicle_position)
       = ([PrintSkipped (57 + 4 / 100000) (12 - 6 / 50000)], None)
   \<and> \<bar>57 - (57 + 49996 / 1000000000)\<bar> / (1 / 100000) < (5::real)
   \<and> run_callback sample_constants
        (LocationFix (57 + 49996 / 1000000000) 12 vehicle_position vehicle_position)
       = ([PrintSkipped (57 + 49996 / 1000000000) 12], None)"
  using location_fix_forwarded_iff_near
          [of sample_constants "57 + 4 / 100000" "12 - 4 / 50000"
              vehicle_position vehicle_position]
        location_fix_forwarded_iff_near
          [of sample_constants "57 + 4 / 100000" "12 - 6 / 50000"
              vehicle_position vehicle_position]
        location_fix_forwarded_iff_near
          [of sample_constants "57 + 49996 / 1000000000" 12 vehicle_position vehicle_position]
  by (simp add: sample_constants_def vehicle_position_def round_def)

subsection \<open>The mode-change watchdog\<close>

text \<open>
  Claim C3. Whenever the flight-mode callback is given a mode other than \<open>FollowMe\<close>, the
  callback ends the process on the spot. For a run that has reached the follow loop
  (where the subscription is active): if in some round of the loop, one of the first 60,
  a flight-mode update with another mode arrives, the run ends there with \<^verbatim>\<open>exit\<close>. The trace
  ends with the callback's message; the callbacks that would come after it in the same
  second, the later rounds and the shutdown never run.
\<close>

theorem mode_change_ends_the_run:
  assumes "flight_mode \<noteq> FollowMe"
    and "snd (startup e) = None"
    and "ticks e = earlier @ t # rest"
    and "int (length earlier) < MAX_SECONDS_TO_FOLLOW"
    and "\<forall>t' \<in> set earlier. running t' \<and> snd (deliver K (callbacks t')) = None"
    and "running t"
    and "callbacks t = before @ FlightModeUpdate flight_mode loc # after"
    and "snd (deliver K before) = None"
  shows "run_callback K (FlightModeUpdate flight_mode loc) = ([mode_changed_message], Some (Exited 0))
       \<and> main K e =
           (fst (startup e) @ concat (map (round_events K) earlier)
              @ [IsRunning True, SleepFor 1] @ fst (deliver K before) @ [mode_changed_message],
            Exited 0)"
proof -
  have cb: "run_callback K (FlightModeUpdate flight_mode loc) = ([mode_changed_message], Some (Exited 0))"
    using assms(1) by (simp add: flight_mode_callback_def mode_changed_message_def halt_def)
  have "follow_loop K 0 (ticks e) =
          emit (concat (map (round_events K) earlier)) (follow_loop K (int (length earlier)) (t # rest))"
    using follow_loop_quiet_rounds [of earlier K 0 "t # rest"] assms(3,4,5) by simp
  also have "follow_loop K (int (length earlier)) (t # rest) =
          ([IsRunning True, SleepFor 1] @ fst (deliver K before) @ [mode_changed_message],
           Some (Exited 0))"
    using assms(1,6,7,8) by (rule follow_loop_mode_change)
  finally have loop: "follow_loop K 0 (ticks e) =
          (concat (map (round_events K) earlier) @ [IsRunning True, SleepFor 1]
             @ fst (deliver K before) @ [mode_changed_message], Some (Exited 0))"
    by (simp add: emit_def)
  have "main K e = (fst (startup e) @ concat (map (round_events K) earlier)
              @ [IsRunning True, SleepFor 1] @ fst (deliver K before) @ [mode_changed_message],
            Exited 0)"
    using assms(2) by (simp add: main_def loop seq_goes_on finish_def emit_def)
  with cb show ?thesis by simp
qed

theorem mode_change_ends_the_run_witness:
  "OtherFlightMode 4 \<noteq> FollowMe
   \<and> snd (startup change_env) = None
   \<and> ticks change_env = [quiet_tick] @ (ticks change_env ! 1) # [quiet_tick]
   \<and> int (length [quiet_tick]) < MAX_SECONDS_TO_FOLLOW
   \<and> list_all (\<lambda>t'. running t' \<and> snd (deliver sample_constants (callbacks t')) = None)
        [quiet_tick]
   \<and> running (ticks change_env ! 1)
   \<and> callbacks (ticks change_env ! 1) =
        [LocationFix 57 12 vehicle_position vehicle_position]
        @ FlightModeUpdate (OtherFlightMode 4) (TargetLocation 57 12)
        # [LocationFix 57 12 vehicle_position vehicle_position]
   \<and> snd (deliver sample_constants [LocationFix 57 12 vehicle_position vehicle_position]) = None
   \<and> main sample_constants change_env =
        (fst (startup change_env)
           @ [IsRunning True, SleepFor 1, IsRunning True, SleepFor 1,
              SetTargetLocation (TargetLocation 57 12), mode_changed_message],
         Exited 0)"
proof -
  have h2: "snd (startup change_env) = None"
    by (simp add: change_env_def sample_defs program_defs snd_seq)
  have h3: "ticks change_env = [quiet_tick] @ (ticks change_env ! 1) # [quiet_tick]"
    by (simp add: change_env_def sample_defs)
  have h4: "int (length [quiet_tick]) < MAX_SECONDS_TO_FOLLOW"
    by (simp add: MAX_SECONDS_TO_FOLLOW_def)
  have h5: "\<forall>t' \<in> set [quiet_tick]. running t' \<and> snd (deliver sample_constants (callbacks t')) = None"
    by (simp add: quiet_tick_def)
  have h6: "running (ticks change_env ! 1)"
    by (simp add: change_env_def sample_defs)
  have h7: "callbacks (ticks change_env ! 1) =
        [LocationFix 57 12 vehicle_position vehicle_position]
        @ FlightModeUpdate (OtherFlightMode 4) (TargetLocation 57 12)
        # [LocationFix 57 12 vehicle_position vehicle_position]"
    by (simp add: change_env_def sample_defs)
  have h8: "snd (deliver sample_constants [LocationFix 57 12 vehicle_position vehicle_position]) = None"
    by (simp add: sample_defs program_defs snd_seq)
  have d: "fst (deliver sample_constants [LocationFix 57 12 vehicle_position vehicle_position])
             = [SetTargetLocation (TargetLocation 57 12)]"
    by (simp add: sample_defs program_defs fst_seq)
  show ?thesis
    using mode_change_ends_the_run [OF _ h2 h3 h4 h5 h6 h7 h8] h2 h3 h4 h5 h6 h7 h8 d
    by (simp add: round_events_def quiet_tick_def list_all_iff)
qed

text \<open>
  Claim C10, as it is stated, fails: the flight-mode subscription ends in line 171, after
  the stop of follow-me in line 167, and the stop itself changes the flight mode. In the
  run below the watchdog fires in between, so the process ends with \<^verbatim>\<open>exit(0)\<close> after the
  stop has been sent.
\<close>

theorem mode_change_after_stop_counterexample:
  "mode_changed_message \<in> set (fst (main sample_constants change_at_stop_env))
   \<and> snd (main sample_constants change_at_stop_env) = Exited 0
   \<and> FollowMeStop \<in> set (fst (main sample_constants change_at_stop_env))"
  by (simp add: main_def change_at_stop_env_def sample_defs program_defs phase_defs)

text \<open>
  Claim C10, amended. A run in which the watchdog has fired (its message is in the trace)
  ends with \<^verbatim>\<open>exit(0)\<close>, which is not the failure status; the message is the last thing that
  happens; the land command has not been sent and the subscription has not been ended.
  The stop of follow-me has been sent exactly when the follow loop had ended before the
  watchdog fired: not when the change is seen during the follow loop.
\<close>

theorem mode_change_exit_is_status_0:
  assumes "mode_changed_message \<in> set (fst (main K e))"
  shows "snd (main K e) = Exited 0
       \<and> snd (main K e) \<noteq> Exited EXIT_FAILURE
       \<and> last (fst (main K e)) = mode_changed_message
       \<and> LandCmd \<notin> set (fst (main K e))
       \<and> UnsubscribeFlightMode \<notin> set (fst (main K e))
       \<and> (FollowMeStop \<in> set (fst (main K e))
            \<longleftrightarrow> snd (follow_loop K 0 (ticks e)) = None)"
proof -
  let ?loop = "follow_loop K 0 (ticks e)"
  let ?during = "deliver K (callbacks_during_stop e)"
  have s: "snd (startup e) = None"
    using assms startup_events [of mode_changed_message e]
    by (auto simp: main_def fst_seq split: if_splits)
  have no_start: "FollowMeStop \<notin> set (fst (startup e))" "LandCmd \<notin> set (fst (startup e))"
    "UnsubscribeFlightMode \<notin> set (fst (startup e))"
    using startup_events [of _ e] by auto
  have no_loop: "FollowMeStop \<notin> set (fst ?loop)" "LandCmd \<notin> set (fst ?loop)"
    "UnsubscribeFlightMode \<notin> set (fst ?loop)"
    using follow_loop_no_shutdown_events [of _ K 0 "ticks e"] by auto
  show ?thesis
  proof (cases "snd ?loop = Some (Exited 0)")
    case True
    have m: "main K e = (fst (startup e) @ fst ?loop, Exited 0)"
      using s True by (simp add: main_def seq_goes_on finish_def emit_def)
    show ?thesis
      using m True no_start no_loop follow_loop_last [OF True]
      by (simp add: EXIT_FAILURE_def)
  next
    case False
    then have nm: "mode_changed_message \<notin> set (fst ?loop)"
      by (simp add: follow_loop_message)
    have l: "snd ?loop = None"
    proof (rule ccontr)
      assume "snd ?loop \<noteq> None"
      then have "fst (main K e) = fst (startup e) @ fst ?loop"
        using s by (auto simp: main_def fst_seq snd_seq)
      with assms nm startup_events [of mode_changed_message e] show False by auto
    qed
    have "mode_changed_message \<in> set (fst (shutdown K e))"
      using assms s l nm startup_events [of mode_changed_message e]
      by (auto simp: main_def fst_seq snd_seq split: if_splits)
    from shutdown_message [OF this] have d: "snd ?during = Some (Exited 0)"
      and sh: "shutdown K e = ([FollowMeStop] @ fst ?during, Some (Exited 0))"
      by simp_all
    have m: "main K e = (fst (startup e) @ fst ?loop @ [FollowMeStop] @ fst ?during, Exited 0)"
      using s l sh by (simp add: main_def seq_goes_on finish_def emit_def)
    have no_during: "LandCmd \<notin> set (fst ?during)" "UnsubscribeFlightMode \<notin> set (fst ?during)"
      using deliver_events [of _ K "callbacks_during_stop e"]
      by (auto simp: mode_changed_message_def)
    show ?thesis
      using m l no_start no_loop no_during deliver_last [OF d]
      by (simp add: EXIT_FAILURE_def)
  qed
qed

theorem mode_change_exit_is_status_0_witness:
  "mode_changed_message \<in> set (fst (main sample_constants change_env))
   \<and> snd (main sample_constants change_env) = Exited 0
   \<and> snd (main sample_constants change_env) \<noteq> Exited EXIT_FAILURE
   \<and> last (fst (main sample_constants change_env)) = mode_changed_message
   \<and> LandCmd \<notin> set (fst (main sample_constants change_env))
   \<and> UnsubscribeFlightMode \<notin> set (fst (main sample_constants change_env))
   \<and> FollowMeStop \<notin> set (fst (main sample_constants change_env))
   \<and> snd (follow_loop sample_constants 0 (ticks change_env)) = Some (Exited 0)
   \<and> mode_changed_message \<in> set (fst (main sample_constants change_at_stop_env))
   \<and> snd (main sample_constants change_at_stop_env) = Exited 0
   \<and> last (fst (main sample_constants change_at_stop_env)) = mode_changed_message
   \<and> LandCmd \<notin> set (fst (main sample_constants change_at_stop_env))
   \<and> FollowMeStop \<in> set (fst (main sample_constants change_at_stop_env))
   \<and> snd (follow_loop sample_constants 0 (ticks change_at_stop_env)) = None"
proof -
  have 1: "mode_changed_message \<in> set (fst (main sample_constants change_env))"
    by (simp add: main_def change_env_def sample_defs program_defs phase_defs)
  have 2: "snd (follow_loop sample_constants 0 (ticks change_env)) = Some (Exited 0)"
    by (simp add: change_env_def sample_defs program_defs snd_seq)
  have 3: "mode_changed_message \<in> set (fst (main sample_constants change_at_stop_env))"
    by (simp add: main_def change_at_stop_env_def sample_defs program_defs phase_defs)
  have 4: "snd (follow_loop sample_constants 0 (ticks change_at_stop_env)) = None"
    by (simp add: change_at_stop_env_def sample_defs program_defs snd_seq)
  show ?thesis
    using mode_change_exit_is_status_0 [OF 1] mode_change_exit_is_status_0 [OF 3] 1 2 3 4
    by (simp add: EXIT_FAILURE_def)
qed

subsection \<open>The follow loop is bounded\<close>

text \<open>
  Claim C4. The follow loop sleeps one second in every round that it starts, and there are
  at most 60 rounds (\<open>MAX_SECONDS_TO_FOLLOW\<close>): with answers for 60 rounds the loop always
  returns. When the provider keeps running and no callback ends the process, the loop
  stops after the 60th round; when the provider reports that it is no longer running in
  an earlier round, the loop stops there, without a further sleep.
\<close>

theorem follow_loop_ends_within_60_rounds:
  "count_list (fst (follow_loop K 0 ts)) (SleepFor 1) \<le> 60
   \<and> count_list (fst (follow_loop K 0 ts)) (SleepFor 1)
       = count_list (fst (follow_loop K 0 ts)) (IsRunning True)
   \<and> (60 \<le> length ts \<longrightarrow> snd (follow_loop K 0 ts) \<noteq> Some Waiting)
   \<and> ((\<forall>t \<in> set quiet. running t \<and> snd (deliver K (callbacks t)) = None)
        \<and> length quiet = 59 \<and> running t \<and> snd (deliver K (callbacks t)) = None \<longrightarrow>
      follow_loop K 0 (quiet @ t # rest)
        = (concat (map (round_events K) (quiet @ [t])), None))
   \<and> ((\<forall>t \<in> set quiet. running t \<and> snd (deliver K (callbacks t)) = None)
        \<and> length quiet < 60 \<and> \<not> running t \<longrightarrow>
      follow_loop K 0 (quiet @ t # rest)
        = (concat (map (round_events K) quiet) @ [IsRunning False], None))"
proof -
  have a: "count_list (fst (follow_loop K 0 ts)) (SleepFor 1) \<le> 60"
    using follow_loop_sleeps_bounded [of K 0 ts] by (simp add: MAX_SECONDS_TO_FOLLOW_def)
  have b: "60 \<le> length ts \<longrightarrow> snd (follow_loop K 0 ts) \<noteq> Some Waiting"
    using follow_loop_returns [of 0 ts K] by (simp add: MAX_SECONDS_TO_FOLLOW_def)
  have c: "follow_loop K 0 (quiet @ t # rest) = (concat (map (round_events K) (quiet @ [t])), None)"
    if "\<forall>t \<in> set quiet. running t \<and> snd (deliver K (callbacks t)) = None"
      and "length quiet = 59" and "running t" and "snd (deliver K (callbacks t)) = None"
  proof -
    have "follow_loop K 0 (quiet @ t # rest) =
            emit (concat (map (round_events K) quiet)) (follow_loop K (0 + int (length quiet)) (t # rest))"
      using that by (intro follow_loop_quiet_rounds) (simp_all add: MAX_SECONDS_TO_FOLLOW_def)
    moreover have "follow_loop K (0 + int (length quiet)) (t # rest) = (round_events K t, None)"
      using that by (intro follow_loop_last_round) (simp_all add: MAX_SECONDS_TO_FOLLOW_def)
    ultimately show ?thesis by (simp add: emit_def)
  qed
  have d: "follow_loop K 0 (quiet @ t # rest) = (concat (map (round_events K) quiet) @ [IsRunning False], None)"
    if "\<forall>t \<in> set quiet. running t \<and> snd (deliver K (callbacks t)) = None"
      and "length quiet < 60" and "\<not> running t"
  proof -
    have "follow_loop K 0 (quiet @ t # rest) =
            emit (concat (map (round_events K) quiet)) (follow_loop K (0 + int (length quiet)) (t # rest))"
      using that by (intro follow_loop_quiet_rounds) (simp_all add: MAX_SECONDS_TO_FOLLOW_def)
    then show ?thesis using that by (simp add: emit_def step_def)
  qed
  show ?thesis
    using a b c d follow_loop_sleeps_each_round [of K 0 ts] by blast
qed


theorem follow_loop_ends_within_60_rounds_witness:
  "60 \<le> length (replicate 60 quiet_tick)
   \<and> snd (follow_loop sample_constants 0 (replicate 60 quiet_tick)) \<noteq> Some Waiting
   \<and> list_all (\<lambda>t. running t \<and> snd (deliver sample_constants (callbacks t)) = None)
        (replicate 59 quiet_tick)
   \<and> length (replicate 59 quiet_tick) = 59
   \<and> running quiet_tick \<and> snd (deliver sample_constants (callbacks quiet_tick)) = None
   \<and> follow_loop sample_constants 0 (replicate 59 quiet_tick @ quiet_tick # [quiet_tick])
       = (concat (map (round_events sample_constants) (replicate 59 quiet_tick @ [quiet_tick])),
          None)
   \<and> list_all (\<lambda>t. running t \<and> snd (deliver sample_constants (callbacks t)) = None)
        [quiet_tick, quiet_tick]
   \<and> length [quiet_tick, quiet_tick] < 60
   \<and> \<not> running stopped_tick
   \<and> follow_loop sample_constants 0 ([quiet_tick, quiet_tick] @ stopped_tick # [quiet_tick])
       = ([IsRunning True, SleepFor 1, IsRunning True, SleepFor 1, IsRunning False], None)"
proof -
  have q: "running quiet_tick \<and> snd (deliver sample_constants (callbacks quiet_tick)) = None"
    by (simp add: quiet_tick_def)
  have s: "\<not> running stopped_tick"
    by (simp add: stopped_tick_def)
  have r: "round_events sample_constants quiet_tick = [IsRunning True, SleepFor 1]"
    by (simp add: round_events_def quiet_tick_def)
  show ?thesis
    using follow_loop_ends_within_60_rounds
            [of sample_constants "replicate 60 quiet_tick" "replicate 59 quiet_tick"
                quiet_tick "[quiet_tick]"]
          follow_loop_ends_within_60_rounds
            [of sample_constants "[]" "[quiet_tick, quiet_tick]" stopped_tick "[quiet_tick]"]
          q s r
    by (simp add: list_all_iff del: follow_loop.simps)
qed

subsection \<open>Discovery\<close>

text \<open>
  Claim C2, as it is stated, fails: the program asks the library for its systems twice,
  for the size test in line 83 and for \<^verbatim>\<open>front()\<close> in line 89. In the run below a second
  system is discovered in between: the program goes on, with the first of two systems.
\<close>

theorem discovery_proceeds_counterexample:
  "snd (discover second_system_env) = None
   \<and> last (fst (discover second_system_env)) = SelectSystem 7
   \<and> system_uuids_at_size second_system_env = [7]
   \<and> system_uuids_at_front second_system_env = [7, 9]"
  by (simp add: second_system_env_def nominal_env_def discover_def select_system_def
        fst_seq snd_seq)

text \<open>
  Claim C2, amended. The program waits, a second at a time, until the discovery callback
  has announced a system. It then goes on past the discovery phase exactly when the list
  of systems read for the size test holds at most one system and the list read for
  \<^verbatim>\<open>front()\<close> is not empty, and it selects the first system of that second list. When the
  list read for the size test holds more than one system the program does not go on: the
  run ends in the discovery phase, with \<^verbatim>\<open>exit(1)\<close> once a system has been announced, no
  system is selected and nothing after the discovery phase happens. While no system is
  announced the program only sleeps.
\<close>

theorem discovery_passes_on_at_most_one_system:
  fixes e :: "'d env"
  shows "(snd (discover e) = None \<longleftrightarrow>
      (\<exists>us \<in> set (discoveries e). us \<noteq> [])
      \<and> length (system_uuids_at_size e) \<le> 1 \<and> system_uuids_at_front e \<noteq> [])
   \<and> (snd (discover e) = None \<longrightarrow>
      last (fst (discover e)) = SelectSystem (hd (system_uuids_at_front e)))
   \<and> (length (system_uuids_at_size e) > 1 \<longrightarrow>
      (snd (discover e) = Some (Exited 1) \<or> snd (discover e) = Some Waiting)
      \<and> (\<forall>u. SelectSystem u \<notin> set (fst (discover e)))
      \<and> (snd (connect e) = None \<longrightarrow> fst (main K e) = fst (connect e) @ fst (discover e)))
   \<and> ((\<exists>us \<in> set (discoveries e). us \<noteq> []) \<and> length (system_uuids_at_size e) > 1 \<longrightarrow>
      snd (discover e) = Some (Exited 1))
   \<and> ((\<forall>us \<in> set (discoveries e). us = []) \<longrightarrow>
      discover e =
        ([Stdout ''Waiting to discover system...'', RegisterOnDiscover]
           @ replicate (length (discoveries e)) (SleepFor 1),
         Some Waiting))"
proof -
  have a: "snd (discover e) = None \<longleftrightarrow>
      (\<exists>us \<in> set (discoveries e). us \<noteq> [])
      \<and> length (system_uuids_at_size e) \<le> 1 \<and> system_uuids_at_front e \<noteq> []"
    by (auto simp: discover_def snd_seq discovery_loop_outcome select_system_outcome
          split: if_splits)
  have b: "last (fst (discover e)) = SelectSystem (hd (system_uuids_at_front e))"
    if passed: "snd (discover e) = None"
  proof -
    from passed a obtain u rest where u: "system_uuids_at_front e = u # rest"
      by (cases "system_uuids_at_front e") auto
    from passed a have "snd (discovery_loop (discoveries e) :: 'd phase) = None"
      and "\<not> length (system_uuids_at_size e) > 1"
      by (auto simp: discovery_loop_outcome)
    then show ?thesis
      by (simp add: discover_def seq_goes_on select_system_def u)
  qed
  have c: "(snd (discover e) = Some (Exited 1) \<or> snd (discover e) = Some Waiting)
      \<and> (\<forall>u. SelectSystem u \<notin> set (fst (discover e)))
      \<and> (snd (connect e) = None \<longrightarrow> fst (main K e) = fst (connect e) @ fst (discover e))"
    if "length (system_uuids_at_size e) > 1"
  proof -
    have o: "snd (discover e) = Some (Exited 1) \<or> snd (discover e) = Some Waiting"
      using that
      by (auto simp: discover_def snd_seq discovery_loop_outcome select_system_def)
    have n: "SelectSystem u \<notin> set (fst (discover e))" for u
      using that
      by (auto simp: discover_def fst_seq select_system_def dest: discovery_loop_events)
    have "fst (main K e) = fst (connect e) @ fst (discover e)" if "snd (connect e) = None"
      using o that startup_stops_in_discover [of e] main_stops_in_startup [of e _ K]
      by auto
    with o n show ?thesis by blast
  qed
  have c': "snd (discover e) = Some (Exited 1)"
    if "\<exists>us \<in> set (discoveries e). us \<noteq> []" and "length (system_uuids_at_size e) > 1"
    using that by (simp add: discover_def snd_seq discovery_loop_outcome select_system_outcome)
  have d: "discover e =
        ([Stdout ''Waiting to discover system...'', RegisterOnDiscover]
           @ replicate (length (discoveries e)) (SleepFor 1), Some Waiting)"
    if "\<forall>us \<in> set (discoveries e). us = []"
    by (simp add: discover_def emit_def discovery_loop_blocked [OF that])
  show ?thesis
    using a b c c' d by blast
qed

theorem discovery_passes_on_at_most_one_system_witness:
  "snd (discover nominal_env) = None
   \<and> [7] \<in> set (discoveries nominal_env)
   \<and> length (system_uuids_at_size nominal_env) \<le> 1
   \<and> system_uuids_at_front nominal_env \<noteq> []
   \<and> last (fst (discover nominal_env)) = SelectSystem 7
   \<and> length (system_uuids_at_size (nominal_env\<lparr>system_uuids_at_size := [7, 9]\<rparr>)) > 1
   \<and> snd (discover (nominal_env\<lparr>system_uuids_at_size := [7, 9]\<rparr>)) = Some (Exited 1)
   \<and> snd (connect (nominal_env\<lparr>system_uuids_at_size := [7, 9]\<rparr>)) = None
   \<and> fst (main sample_constants (nominal_env\<lparr>system_uuids_at_size := [7, 9]\<rparr>))
       = [AddAnyConnection ''udp://:14540'', Stdout ''Waiting to discover system...'',
          RegisterOnDiscover, SleepFor 1, PrintDiscovered 7, SystemUuids [7, 9],
          Stdout ''Discovered more than one system! Exiting.'']
   \<and> list_all (\<lambda>us. us = []) (discoveries (nominal_env\<lparr>discoveries := [Nil, Nil]\<rparr>))
   \<and> discover (nominal_env\<lparr>discoveries := [Nil, Nil]\<rparr>)
       = ([Stdout ''Waiting to discover system...'', RegisterOnDiscover, SleepFor 1, SleepFor 1],
          Some Waiting)"
proof -
  let ?two = "nominal_env\<lparr>system_uuids_at_size := [7, 9]\<rparr>"
  have 0: "[7] \<in> set (discoveries nominal_env)
           \<and> length (system_uuids_at_size nominal_env) \<le> 1
           \<and> system_uuids_at_front nominal_env \<noteq> []
           \<and> hd (system_uuids_at_front nominal_env) = 7"
    by (simp add: nominal_env_def)
  have 1: "length (system_uuids_at_size ?two) > 1 \<and> [7] \<in> set (discoveries ?two)"
    by (simp add: nominal_env_def)
  have 3: "snd (connect ?two) = None"
    by (simp add: nominal_env_def connect_def argc_def)
  have 4: "fst (connect ?two) @ fst (discover ?two)
     = [AddAnyConnection ''udp://:14540'', Stdout ''Waiting to discover system...'',
          RegisterOnDiscover, SleepFor 1, PrintDiscovered 7, SystemUuids [7, 9],
          Stdout ''Discovered more than one system! Exiting.'']"
    by (simp add: nominal_env_def connect_def argc_def discover_def select_system_def fst_seq)
  have 5: "list_all (\<lambda>us. us = []) (discoveries (nominal_env\<lparr>discoveries := [Nil, Nil]\<rparr>))"
    by (simp add: nominal_env_def)
  note t1 = discovery_passes_on_at_most_one_system [of nominal_env sample_constants]
  note t2 = discovery_passes_on_at_most_one_system [of ?two sample_constants]
  note t3 = discovery_passes_on_at_most_one_system
              [of "nominal_env\<lparr>discoveries := [Nil, Nil]\<rparr>" sample_constants]
  have p: "snd (discover nominal_env) = None"
    using t1 0 by blast
  have q: "last (fst (discover nominal_env)) = SelectSystem 7"
    using t1 p 0 by simp
  have r: "snd (discover ?two) = Some (Exited 1)"
    using t2 1 by blast
  have s: "fst (main sample_constants ?two) = fst (connect ?two) @ fst (discover ?two)"
    using t2 1 3 by blast
  have u: "discover (nominal_env\<lparr>discoveries := [Nil, Nil]\<rparr>)
       = ([Stdout ''Waiting to discover system...'', RegisterOnDiscover, SleepFor 1, SleepFor 1],
          Some Waiting)"
    using t3 5 by (simp add: nominal_env_def list_all_iff)
  show ?thesis
    using 0 1 3 4 5 p q r s u by simp
qed

subsection \<open>Preflight\<close>

text \<open>
  Claim C6. The preflight phase polls \<^verbatim>\<open>health_all_ok\<close> until it is true, and does nothing
  else until then. The arm command is sent exactly when the health check has passed and
  the vehicle is not armed; the takeoff command is sent exactly when, in addition, arming
  has not failed and the vehicle is not in the air; each command comes after the health
  check has answered true. After a takeoff the phase ends only at the first reading of
  the relative altitude that is at least 2.4, all earlier readings being below; and the
  phase does end when the health check passes, no command is refused and such a reading
  comes.
\<close>

theorem preflight_waits_then_arms_and_takes_off:
  "(ArmCmd \<in> set (fst (preflight e)) \<longleftrightarrow> True \<in> set (health_all_ok e) \<and> \<not> armed e)
   \<and> (TakeoffCmd \<in> set (fst (preflight e)) \<longleftrightarrow>
        True \<in> set (health_all_ok e) \<and> (armed e \<or> arm_result e = ActionSuccess) \<and> \<not> in_air e)
   \<and> (ArmCmd \<in> set (fst (preflight e)) \<longrightarrow>
        HealthAllOk True \<in> set (takeWhile (\<lambda>ev. ev \<noteq> ArmCmd) (fst (preflight e))))
   \<and> (TakeoffCmd \<in> set (fst (preflight e)) \<longrightarrow>
        HealthAllOk True \<in> set (takeWhile (\<lambda>ev. ev \<noteq> TakeoffCmd) (fst (preflight e))))
   \<and> (True \<notin> set (health_all_ok e) \<longrightarrow> snd (preflight e) = Some Waiting)
   \<and> (snd (preflight e) = None \<and> \<not> in_air e \<longrightarrow>
        (\<exists>low p rest. positions e = low @ p # rest
           \<and> (\<forall>q \<in> set low. relative_altitude_m q < 2.4) \<and> 2.4 \<le> relative_altitude_m p
           \<and> suffix ([TakeoffCmd] @ concat (map climb_round low)
                       @ [RelativeAltitude (relative_altitude_m p), Stdout ''In Air...''])
                 (fst (preflight e))))
   \<and> (True \<in> set (health_all_ok e) \<and> (armed e \<or> arm_result e = ActionSuccess)
        \<and> (in_air e \<or> takeoff_result e = ActionSuccess
               \<and> (\<exists>p \<in> set (positions e). 2.4 \<le> relative_altitude_m p)) \<longrightarrow>
        snd (preflight e) = None)"
proof -
  have a: "ArmCmd \<in> set (fst (preflight e)) \<longleftrightarrow> True \<in> set (health_all_ok e) \<and> \<not> armed e"
    by (simp add: preflight_trace fst_seq wait_health_no_command ArmCmd_in_arm ArmCmd_in_takeoff)
  have b: "TakeoffCmd \<in> set (fst (preflight e)) \<longleftrightarrow>
        True \<in> set (health_all_ok e) \<and> (armed e \<or> arm_result e = ActionSuccess) \<and> \<not> in_air e"
    by (auto simp: preflight_trace fst_seq wait_health_no_command TakeoffCmd_in_arm
          TakeoffCmd_in_takeoff arm_outcome)
  have c: "HealthAllOk True \<in> set (takeWhile (\<lambda>ev. ev \<noteq> ArmCmd) (fst (preflight e)))"
    if "ArmCmd \<in> set (fst (preflight e))"
    using that a by (intro health_before_command) auto
  have d: "HealthAllOk True \<in> set (takeWhile (\<lambda>ev. ev \<noteq> TakeoffCmd) (fst (preflight e)))"
    if "TakeoffCmd \<in> set (fst (preflight e))"
    using that b by (intro health_before_command) auto
  have f: "snd (preflight e) = Some Waiting" if "True \<notin> set (health_all_ok e)"
    using that by (simp add: preflight_def wait_health_outcome snd_seq)
  have g: "\<exists>low p rest. positions e = low @ p # rest
           \<and> (\<forall>q \<in> set low. relative_altitude_m q < 2.4) \<and> 2.4 \<le> relative_altitude_m p
           \<and> suffix ([TakeoffCmd] @ concat (map climb_round low)
                       @ [RelativeAltitude (relative_altitude_m p), Stdout ''In Air...''])
                 (fst (preflight e))"
    if passed: "snd (preflight e) = None" and ground: "\<not> in_air e"
  proof -
    have h: "True \<in> set (health_all_ok e)" and ar: "snd (arm e) = None"
      and t: "takeoff_result e = ActionSuccess"
      and w: "snd (wait_altitude (positions e)) = None"
      using passed ground
      by (auto simp: preflight_def takeoff_def action_error_exit_def snd_seq wait_health_outcome
            split: if_splits)
    from wait_altitude_trace [OF w] obtain low p rest where
      *: "positions e = low @ p # rest" "\<forall>q \<in> set low. relative_altitude_m q < 2.4"
         "2.4 \<le> relative_altitude_m p"
         "fst (wait_altitude (positions e)) =
            concat (map climb_round low) @ [RelativeAltitude (relative_altitude_m p)]"
      by blast
    have "fst (takeoff e) = [InAir False] @ ([TakeoffCmd] @ concat (map climb_round low)
            @ [RelativeAltitude (relative_altitude_m p), Stdout ''In Air...''])"
      using ground t w *(4) by (simp add: takeoff_def action_error_exit_def fst_seq snd_seq)
    then have "suffix ([TakeoffCmd] @ concat (map climb_round low)
                 @ [RelativeAltitude (relative_altitude_m p), Stdout ''In Air...''])
                (fst (preflight e))"
      using h ar by (simp only: preflight_trace if_True fst_seq suffix_def) auto
    with *(1,2,3) show ?thesis by blast
  qed
  show ?thesis
    using a b c d f g preflight_returns [of e] by blast
qed


theorem preflight_waits_then_arms_and_takes_off_witness:
  "True \<in> set (health_all_ok nominal_env) \<and> \<not> armed nominal_env \<and> \<not> in_air nominal_env
   \<and> arm_result nominal_env = ActionSuccess \<and> takeoff_result nominal_env = ActionSuccess
   \<and> list_ex (\<lambda>p. 2.4 \<le> relative_altitude_m p) (positions nominal_env)
   \<and> ArmCmd \<in> set (fst (preflight nominal_env))
   \<and> TakeoffCmd \<in> set (fst (preflight nominal_env))
   \<and> HealthAllOk True \<in> set (takeWhile (\<lambda>ev. ev \<noteq> ArmCmd) (fst (preflight nominal_env)))
   \<and> HealthAllOk True \<in> set (takeWhile (\<lambda>ev. ev \<noteq> TakeoffCmd) (fst (preflight nominal_env)))
   \<and> snd (preflight nominal_env) = None
   \<and> (\<exists>low p rest. positions nominal_env = low @ p # rest
         \<and> list_all (\<lambda>q. relative_altitude_m q < 2.4) low \<and> 2.4 \<le> relative_altitude_m p
         \<and> suffix ([TakeoffCmd] @ concat (map climb_round low)
                     @ [RelativeAltitude (relative_altitude_m p), Stdout ''In Air...''])
               (fst (preflight nominal_env)))
   \<and> fst (preflight nominal_env) =
        [HealthAllOk False, Stdout ''Waiting for system to be ready'', SleepFor 1,
         HealthAllOk True, Stdout ''System is ready'', Armed False, ArmCmd, Stdout ''Armed'',
         InAir False, TakeoffCmd, RelativeAltitude 1, SleepFor 1, RelativeAltitude (5 / 2),
         Stdout ''In Air...'']
   \<and> True \<notin> set (health_all_ok (nominal_env\<lparr>health_all_ok := [False, False]\<rparr>))
   \<and> snd (preflight (nominal_env\<lparr>health_all_ok := [False, False]\<rparr>)) = Some Waiting
   \<and> armed (nominal_env\<lparr>armed := True, in_air := True\<rparr>)
   \<and> in_air (nominal_env\<lparr>armed := True, in_air := True\<rparr>)
   \<and> ArmCmd \<notin> set (fst (preflight (nominal_env\<lparr>armed := True, in_air := True\<rparr>)))
   \<and> TakeoffCmd \<notin> set (fst (preflight (nominal_env\<lparr>armed := True, in_air := True\<rparr>)))"
proof -
  have 1: "True \<in> set (health_all_ok nominal_env) \<and> \<not> armed nominal_env
           \<and> \<not> in_air nominal_env \<and> arm_result nominal_env = ActionSuccess"
    by (simp add: nominal_env_def)
  have 0: "takeoff_result nominal_env = ActionSuccess
           \<and> (\<exists>p \<in> set (positions nominal_env). 2.4 \<le> relative_altitude_m p)"
    by (simp add: sample_defs)
  have 3: "fst (preflight nominal_env) =
        [HealthAllOk False, Stdout ''Waiting for system to be ready'', SleepFor 1,
         HealthAllOk True, Stdout ''System is ready'', Armed False, ArmCmd, Stdout ''Armed'',
         InAir False, TakeoffCmd, RelativeAltitude 1, SleepFor 1, RelativeAltitude (5 / 2),
         Stdout ''In Air...'']"
    by (simp add: sample_defs program_defs fst_seq snd_seq)
  have 4: "True \<notin> set (health_all_ok (nominal_env\<lparr>health_all_ok := [False, False]\<rparr>))"
    by (simp add: nominal_env_def)
  have 5: "armed (nominal_env\<lparr>armed := True, in_air := True\<rparr>)
           \<and> in_air (nominal_env\<lparr>armed := True, in_air := True\<rparr>)"
    by (simp add: nominal_env_def)
  note t1 = preflight_waits_then_arms_and_takes_off [of nominal_env]
  note t2 = preflight_waits_then_arms_and_takes_off
              [of "nominal_env\<lparr>health_all_ok := [False, False]\<rparr>"]
  note t3 = preflight_waits_then_arms_and_takes_off
              [of "nominal_env\<lparr>armed := True, in_air := True\<rparr>"]
  have 2: "snd (preflight nominal_env) = None"
    using t1 0 1 by blast
  have a: "ArmCmd \<in> set (fst (preflight nominal_env))"
    and b: "TakeoffCmd \<in> set (fst (preflight nominal_env))"
    using t1 1 by blast+
  have c: "HealthAllOk True \<in> set (takeWhile (\<lambda>ev. ev \<noteq> ArmCmd) (fst (preflight nominal_env)))"
    and d: "HealthAllOk True \<in> set (takeWhile (\<lambda>ev. ev \<noteq> TakeoffCmd) (fst (preflight nominal_env)))"
    using t1 a b by blast+
  have g: "\<exists>low p rest. positions nominal_env = low @ p # rest
         \<and> list_all (\<lambda>q. relative_altitude_m q < 2.4) low \<and> 2.4 \<le> relative_altitude_m p
         \<and> suffix ([TakeoffCmd] @ concat (map climb_round low)
                     @ [RelativeAltitude (relative_altitude_m p), Stdout ''In Air...''])
               (fst (preflight nominal_env))"
    using t1 1 2 unfolding list_all_iff by blast
  have f: "snd (preflight (nominal_env\<lparr>health_all_ok := [False, False]\<rparr>)) = Some Waiting"
    using t2 4 by blast
  have h: "ArmCmd \<notin> set (fst (preflight (nominal_env\<lparr>armed := True, in_air := True\<rparr>)))"
    "TakeoffCmd \<notin> set (fst (preflight (nominal_env\<lparr>armed := True, in_air := True\<rparr>)))"
    using t3 5 by blast+
  show ?thesis
    using 0 1 2 3 4 5 a b c d f g h unfolding list_ex_iff by blast
qed

subsection \<open>Shutdown\<close>

text \<open>
  Claim C5, as it is stated, fails: between the stop and the land command the program
  ends the flight-mode subscription, and the location callback, which is never cancelled,
  still passes fixes on while the program shuts down. In the run below, which returns 0,
  the part of the trace after the follow loop holds both.
\<close>

theorem shutdown_exactly_counterexample:
  "snd (main sample_constants late_fix_env) = Returned 0
   \<and> fst (main sample_constants late_fix_env) =
        (fst (startup late_fix_env) @ fst (follow_loop sample_constants 0 (ticks late_fix_env)))
          @ [FollowMeStop, UnsubscribeFlightMode, LandCmd,
             InAir True, Stdout ''waiting until landed'', SleepFor 1,
             SetTargetLocation (TargetLocation 57 12),
             InAir False, Stdout ''Landed...'']"
proof -
  have 1: "snd (startup late_fix_env) = None"
    by (simp add: late_fix_env_def sample_defs program_defs snd_seq)
  have 2: "snd (follow_loop sample_constants 0 (ticks late_fix_env)) = None"
    by (simp add: late_fix_env_def sample_defs program_defs snd_seq)
  have 3: "shutdown sample_constants late_fix_env =
             ([FollowMeStop, UnsubscribeFlightMode, LandCmd,
               InAir True, Stdout ''waiting until landed'', SleepFor 1,
               SetTargetLocation (TargetLocation 57 12),
               InAir False, Stdout ''Landed...''], None)"
    by (simp add: late_fix_env_def sample_defs program_defs phase_defs)
  show ?thesis
    using 1 2 3 by (simp add: main_def fst_seq snd_seq snd_finish)
qed

text \<open>
  Claim C5, amended. In a run that returns 0 the main thread does, right after the follow
  loop and in this order: the follow-me stop, the end of the flight-mode subscription, the
  land command, then the polls of the in-air status, each followed by a second of sleep
  as long as the vehicle is in the air, up to the first answer that it is not. Everything
  else in that part of the trace comes from the callbacks. Neither the stop nor the land
  command occurs earlier in the run, and both have succeeded. Conversely, when the follow
  loop has ended, both commands succeed, no flight-mode change is seen before the
  subscription ends and the vehicle eventually reports that it is not in the air, the
  program returns 0.
\<close>

theorem shutdown_is_stop_land_wait:
  "(snd (main K e) = Returned 0 \<longrightarrow>
      stop_result e = FollowMeSuccess \<and> land_result e = ActionSuccess
      \<and> fst (main K e) =
          (fst (startup e) @ fst (follow_loop K 0 (ticks e))) @ fst (shutdown K e)
      \<and> (\<exists>n. main_thread_events (fst (shutdown K e)) =
               [FollowMeStop, UnsubscribeFlightMode, LandCmd]
                 @ concat (replicate n landing_round)
                 @ [InAir False, Stdout ''Landed...'']
             \<and> n < length (landing e) \<and> \<not> still_in_air (landing e ! n)
             \<and> (\<forall>i < n. still_in_air (landing e ! i)))
      \<and> FollowMeStop \<notin> set (fst (startup e) @ fst (follow_loop K 0 (ticks e)))
      \<and> LandCmd \<notin> set (fst (startup e) @ fst (follow_loop K 0 (ticks e))))
   \<and> (snd (startup e) = None \<and> snd (follow_loop K 0 (ticks e)) = None
        \<and> stop_result e = FollowMeSuccess
        \<and> snd (deliver K (callbacks_during_stop e)) = None
        \<and> land_result e = ActionSuccess
        \<and> (\<exists>p \<in> set (landing e). \<not> still_in_air p) \<longrightarrow>
      snd (main K e) = Returned 0)"
proof -
  let ?before = "fst (startup e) @ fst (follow_loop K 0 (ticks e))"
  have no: "FollowMeStop \<notin> set ?before" "LandCmd \<notin> set ?before"
    using startup_events [of _ e] follow_loop_no_shutdown_events [of _ K 0 "ticks e"]
    by auto
  have a: "stop_result e = FollowMeSuccess \<and> land_result e = ActionSuccess
      \<and> fst (main K e) = ?before @ fst (shutdown K e)
      \<and> (\<exists>n. main_thread_events (fst (shutdown K e)) =
               [FollowMeStop, UnsubscribeFlightMode, LandCmd]
                 @ concat (replicate n landing_round)
                 @ [InAir False, Stdout ''Landed...'']
             \<and> n < length (landing e) \<and> \<not> still_in_air (landing e ! n)
             \<and> (\<forall>i < n. still_in_air (landing e ! i)))"
    if "snd (main K e) = Returned 0"
  proof -
    from that have r: "snd (startup e) = None" "snd (follow_loop K 0 (ticks e)) = None"
      "snd (shutdown K e) = None"
      by (simp_all add: main_returns_0)
    have "fst (main K e) = ?before @ fst (shutdown K e)"
      using r by (simp add: main_def fst_seq snd_seq)
    with shutdown_trace [OF r(3)] show ?thesis by blast
  qed
  have b: "snd (main K e) = Returned 0"
    if "snd (startup e) = None \<and> snd (follow_loop K 0 (ticks e)) = None
        \<and> stop_result e = FollowMeSuccess
        \<and> snd (deliver K (callbacks_during_stop e)) = None
        \<and> land_result e = ActionSuccess
        \<and> (\<exists>p \<in> set (landing e). \<not> still_in_air p)"
  proof -
    have "snd (shutdown K e) = None"
      using that
      by (simp add: shutdown_def follow_me_error_exit_def action_error_exit_def snd_seq
            wait_landed_outcome)
    with that show ?thesis by (simp add: main_returns_0)
  qed
  show ?thesis
    using a b no by blast
qed

theorem shutdown_is_stop_land_wait_witness:
  "snd (startup late_fix_env) = None
   \<and> snd (follow_loop sample_constants 0 (ticks late_fix_env)) = None
   \<and> stop_result late_fix_env = FollowMeSuccess
   \<and> snd (deliver sample_constants (callbacks_during_stop late_fix_env)) = None
   \<and> land_result late_fix_env = ActionSuccess
   \<and> list_ex (\<lambda>p. \<not> still_in_air p) (landing late_fix_env)
   \<and> snd (main sample_constants late_fix_env) = Returned 0
   \<and> main_thread_events (fst (shutdown sample_constants late_fix_env)) =
        [FollowMeStop, UnsubscribeFlightMode, LandCmd,
         InAir True, Stdout ''waiting until landed'', SleepFor 1,
         InAir False, Stdout ''Landed...'']
   \<and> fst (main sample_constants late_fix_env) =
        (fst (startup late_fix_env) @ fst (follow_loop sample_constants 0 (ticks late_fix_env)))
          @ fst (shutdown sample_constants late_fix_env)"
proof -
  have 1: "snd (startup late_fix_env) = None"
    by (simp add: late_fix_env_def sample_defs program_defs snd_seq)
  have 2: "snd (follow_loop sample_constants 0 (ticks late_fix_env)) = None"
    by (simp add: late_fix_env_def sample_defs program_defs snd_seq)
  have 3: "stop_result late_fix_env = FollowMeSuccess
           \<and> snd (deliver sample_constants (callbacks_during_stop late_fix_env)) = None
           \<and> land_result late_fix_env = ActionSuccess
           \<and> (\<exists>p \<in> set (landing late_fix_env). \<not> still_in_air p)"
    by (simp add: late_fix_env_def nominal_env_def)
  have 4: "main_thread_events (fst (shutdown sample_constants late_fix_env)) =
        [FollowMeStop, UnsubscribeFlightMode, LandCmd,
         InAir True, Stdout ''waiting until landed'', SleepFor 1,
         InAir False, Stdout ''Landed...'']"
    by (simp add: late_fix_env_def sample_defs program_defs phase_defs)
  note t = shutdown_is_stop_land_wait [of sample_constants late_fix_env]
  have 5: "snd (main sample_constants late_fix_env) = Returned 0"
    using t 1 2 3 by blast
  have 6: "fst (main sample_constants late_fix_env) =
        (fst (startup late_fix_env) @ fst (follow_loop sample_constants 0 (ticks late_fix_env)))
          @ fst (shutdown sample_constants late_fix_env)"
    using t 5 by blast
  show ?thesis
    using 1 2 3 4 5 6 unfolding list_ex_iff by blast
qed

subsection \<open>Refused commands\<close>




end
